theory Spec2Isabelle
  imports Complex_Main "HOL-Library.Word"
begin

unbundle bit_operations_syntax

section \<open>JavaScript numbers and values\<close>

text \<open>
  A JavaScript number is modelled as a real number or one of the three special values
  of IEEE 754 arithmetic. Finite arithmetic is exact (no rounding, no overflow) and
  zero carries no sign: a division of a non-zero number by zero gives the infinity
  with the sign of the numerator, as it does in JavaScript for the zero that a
  subtraction \<open>a - a\<close> produces.
\<close>

datatype jsnum = Fin real | PInf | NInf | NaN

fun isNaN :: "jsnum \<Rightarrow> bool" where
  "isNaN NaN = True"
| "isNaN _ = False"

fun js_neg :: "jsnum \<Rightarrow> jsnum" where
  "js_neg (Fin a) = Fin (- a)"
| "js_neg PInf = NInf"
| "js_neg NInf = PInf"
| "js_neg NaN = NaN"

fun js_add :: "jsnum \<Rightarrow> jsnum \<Rightarrow> jsnum" where
  "js_add NaN _ = NaN"
| "js_add _ NaN = NaN"
| "js_add (Fin a) (Fin b) = Fin (a + b)"
| "js_add PInf NInf = NaN"
| "js_add NInf PInf = NaN"
| "js_add PInf _ = PInf"
| "js_add NInf _ = NInf"
| "js_add (Fin a) PInf = PInf"
| "js_add (Fin a) NInf = NInf"

definition js_sub :: "jsnum \<Rightarrow> jsnum \<Rightarrow> jsnum" where
  "js_sub a b = js_add a (js_neg b)"

text \<open>The sign of a number: \<open>1\<close>, \<open>0\<close> or \<open>-1\<close>; only used off \<open>NaN\<close>.\<close>

fun js_sign :: "jsnum \<Rightarrow> int" where
  "js_sign (Fin a) = (if a > 0 then 1 else if a < 0 then - 1 else 0)"
| "js_sign PInf = 1"
| "js_sign NInf = - 1"
| "js_sign NaN = 0"

definition signed_inf :: "int \<Rightarrow> jsnum" where
  "signed_inf s = (if s > 0 then PInf else if s < 0 then NInf else NaN)"

fun js_mul :: "jsnum \<Rightarrow> jsnum \<Rightarrow> jsnum" where
  "js_mul NaN _ = NaN"
| "js_mul _ NaN = NaN"
| "js_mul (Fin a) (Fin b) = Fin (a * b)"
| "js_mul a b = signed_inf (js_sign a * js_sign b)"

fun js_div :: "jsnum \<Rightarrow> jsnum \<Rightarrow> jsnum" where
  "js_div NaN _ = NaN"
| "js_div _ NaN = NaN"
| "js_div (Fin a) (Fin b) = (if b \<noteq> 0 then Fin (a / b) else signed_inf (js_sign (Fin a)))"
| "js_div (Fin a) _ = Fin 0"
| "js_div a (Fin b) = signed_inf (js_sign a * (if b < 0 then - 1 else 1))"
| "js_div _ _ = NaN"

text \<open>The comparisons \<open><\<close>, \<open>>\<close>, \<open>>=\<close>: false as soon as an operand is \<open>NaN\<close>.\<close>

fun js_less :: "jsnum \<Rightarrow> jsnum \<Rightarrow> bool" where
  "js_less NaN _ = False"
| "js_less _ NaN = False"
| "js_less (Fin a) (Fin b) = (a < b)"
| "js_less NInf NInf = False"
| "js_less NInf _ = True"
| "js_less _ NInf = False"
| "js_less PInf _ = False"
| "js_less _ PInf = True"

definition js_greater :: "jsnum \<Rightarrow> jsnum \<Rightarrow> bool" where
  "js_greater a b = js_less b a"

definition js_geq :: "jsnum \<Rightarrow> jsnum \<Rightarrow> bool" where
  "js_geq a b = (\<not> isNaN a \<and> \<not> isNaN b \<and> \<not> js_less a b)"

fun Math_max :: "jsnum \<Rightarrow> jsnum \<Rightarrow> jsnum" where
  "Math_max NaN _ = NaN"
| "Math_max _ NaN = NaN"
| "Math_max a b = (if js_less a b then b else a)"

fun Math_min :: "jsnum \<Rightarrow> jsnum \<Rightarrow> jsnum" where
  "Math_min NaN _ = NaN"
| "Math_min _ NaN = NaN"
| "Math_min a b = (if js_less b a then b else a)"

fun Math_floor :: "jsnum \<Rightarrow> jsnum" where
  "Math_floor (Fin a) = Fin (of_int \<lfloor>a\<rfloor>)"
| "Math_floor a = a"

text \<open>
  A number is falsy when it is zero or \<open>NaN\<close>. A property that is a number or absent
  is a \<open>jsnum option\<close>, with \<open>None\<close> for \<open>undefined\<close>; \<open>undefined\<close> is falsy and
  converts to \<open>NaN\<close> in arithmetic.
\<close>

fun truthy :: "jsnum \<Rightarrow> bool" where
  "truthy (Fin a) = (a \<noteq> 0)"
| "truthy NaN = False"
| "truthy _ = True"

fun ToNumber :: "jsnum option \<Rightarrow> jsnum" where
  "ToNumber None = NaN"
| "ToNumber (Some n) = n"

text \<open>\<open>a || d\<close> for a numeric property \<open>a\<close> and a numeric default \<open>d\<close>.\<close>

fun or_default :: "jsnum option \<Rightarrow> jsnum \<Rightarrow> jsnum" where
  "or_default None d = d"
| "or_default (Some n) d = (if truthy n then n else d)"

text \<open>
  A value is \<open>undefined\<close>, \<open>null\<close>, a number, a string, or one of the built-in objects
  and functions of the language that a property read can reach: the \<open>Object\<close> and
  \<open>Function\<close> constructors, their prototypes, a method of \<open>Object.prototype\<close>, a static
  method of \<open>Object\<close>, a method of \<open>Function.prototype\<close>.
\<close>

datatype builtin =
    Object_constructor | Object_prototype | Function_constructor | Function_prototype
  | Object_method string | Object_static string | Function_method string

datatype jsval = Undefined | Null | Num jsnum | Str string | Builtin builtin

fun val_of :: "jsnum option \<Rightarrow> jsval" where
  "val_of None = Undefined"
| "val_of (Some n) = Num n"

datatype js_error = TypeError | Error string

section \<open>Math utilities (js/utils/math.js)\<close>

definition MusicMath_map :: "jsnum \<Rightarrow> jsnum \<Rightarrow> jsnum \<Rightarrow> jsnum \<Rightarrow> jsnum \<Rightarrow> jsnum" where
  "MusicMath_map val inMin inMax outMin outMax =
     (if isNaN val \<or> isNaN inMin \<or> isNaN inMax \<or> isNaN outMin \<or> isNaN outMax
      then outMin
      else let result = js_add (js_mul (js_div (js_sub val inMin) (js_sub inMax inMin))
                                       (js_sub outMax outMin)) outMin
           in if isNaN result then outMin else result)"

definition MusicMath_clamp :: "jsnum \<Rightarrow> jsnum \<Rightarrow> jsnum \<Rightarrow> jsnum" where
  "MusicMath_clamp val lo hi = Math_min (Math_max val lo) hi"

section \<open>Musical events\<close>

text \<open>
  \<open>emitMusicalEvent(eventType, data)\<close> dispatches a \<open>CustomEvent\<close> whose detail is the
  object literal built by the adapter: an event is its type and the fields of that
  object in the order written.
\<close>

type_synonym event = "string \<times> (string \<times> jsval) list"

definition field :: "event \<Rightarrow> string \<Rightarrow> jsval" where
  "field e k = (case map_of (snd e) k of None \<Rightarrow> Undefined | Some v \<Rightarrow> v)"

section \<open>MIDI input (js/input/midi.js): message decoding\<close>

text \<open>
  \<open>message.data\<close> is a \<open>Uint8Array\<close>. The destructuring
  \<open>[status, note, velocity] = message.data\<close> leaves a variable \<open>undefined\<close> when the
  array is too short.
\<close>

fun nth_opt :: "'a list \<Rightarrow> nat \<Rightarrow> 'a option" where
  "nth_opt [] _ = None"
| "nth_opt (x # xs) 0 = Some x"
| "nth_opt (x # xs) (Suc n) = nth_opt xs n"

definition byte_num :: "8 word option \<Rightarrow> jsnum option" where
  "byte_num b = map_option (\<lambda>w. Fin (real (unat w))) b"

text \<open>\<open>status & m\<close>: \<open>undefined\<close> converts to 0 under a bitwise operator.\<close>

definition bit_and :: "8 word option \<Rightarrow> 8 word \<Rightarrow> 8 word" where
  "bit_and b m = (case b of None \<Rightarrow> 0 | Some w \<Rightarrow> w AND m)"

definition word_num :: "8 word \<Rightarrow> jsval" where
  "word_num w = Num (Fin (real (unat w)))"

definition handleMidiMessage :: "8 word list \<Rightarrow> event list" where
  "handleMidiMessage data =
     (let status = nth_opt data 0; note = nth_opt data 1; velocity = nth_opt data 2;
          command = bit_and status 0xf0;
          channel = bit_and status 0x0f
      in if command = 0x90 then
           (if js_greater (ToNumber (byte_num velocity)) (Fin 0) then
              [(''note-on'', [(''note'', val_of (byte_num note)),
                              (''velocity'', Num (js_div (ToNumber (byte_num velocity)) (Fin 127))),
                              (''channel'', word_num channel)])]
            else
              [(''note-off'', [(''note'', val_of (byte_num note)),
                               (''channel'', word_num channel)])])
         else if command = 0x80 then
           [(''note-off'', [(''note'', val_of (byte_num note)),
                            (''channel'', word_num channel)])]
         else if command = 0xb0 then
           (let controlNumber = note; controlValue = velocity
            in [(''control-change'', [(''control'', val_of (byte_num controlNumber)),
                                      (''value'', Num (js_div (ToNumber (byte_num controlValue)) (Fin 127))),
                                      (''channel'', word_num channel)])])
         else [])"

section \<open>Keyboard input adapter\<close>

text \<open>
  The three layouts are the object literals of the constructor, as association lists.
  The field \<open>baseOctave\<close> is stored by the constructor and never read: it is left out.
\<close>

definition piano :: "(string \<times> int) list" where
  "piano =
     [(''z'', 48), (''x'', 50), (''c'', 52), (''v'', 53), (''b'', 55), (''n'', 57), (''m'', 59),
      ('','', 60),
      (''s'', 49), (''d'', 51), (''g'', 54), (''h'', 56), (''j'', 58),
      (''q'', 60), (''w'', 62), (''e'', 64), (''r'', 65), (''t'', 67), (''y'', 69), (''u'', 71),
      (''i'', 72),
      (''2'', 61), (''3'', 63), (''5'', 66), (''6'', 68), (''7'', 70)]"

definition drumpad :: "(string \<times> int) list" where
  "drumpad =
     [(''q'', 0), (''w'', 1), (''e'', 2), (''r'', 3),
      (''a'', 4), (''s'', 5), (''d'', 6), (''f'', 7),
      (''z'', 8), (''x'', 9), (''c'', 10), (''v'', 11),
      (''1'', 12), (''2'', 13), (''3'', 14), (''4'', 15)]"

definition chromatic :: "(string \<times> int) list" where
  "chromatic =
     [(''a'', 0), (''s'', 1), (''d'', 2), (''f'', 3), (''g'', 4), (''h'', 5), (''j'', 6),
      (''k'', 7), (''l'', 8), ('';'', 9), ([CHR 0x27], 10), (''z'', 11), (''x'', 12)]"

definition layouts :: "(string \<times> (string \<times> int) list) list" where
  "layouts = [(''piano'', piano), (''drumpad'', drumpad), (''chromatic'', chromatic)]"

text \<open>
  \<open>this.layouts[this.layout][key]\<close> is a property read on object literals: it finds an
  own entry first and then the members that every object inherits from
  \<open>Object.prototype\<close>, as the ECMAScript standard lists them (with their \<open>length\<close>): so a
  key or a layout named \<open>constructor\<close> is found. \<open>inherited k\<close> is what an object literal
  without an own entry \<open>k\<close> yields for \<open>k\<close>.
\<close>

definition Object_prototype_methods :: "(string \<times> nat) list" where
  "Object_prototype_methods =
     [(''toString'', 0), (''toLocaleString'', 0), (''valueOf'', 0), (''hasOwnProperty'', 1),
      (''isPrototypeOf'', 1), (''propertyIsEnumerable'', 1), (''__defineGetter__'', 2),
      (''__defineSetter__'', 2), (''__lookupGetter__'', 1), (''__lookupSetter__'', 1)]"

definition inherited :: "string \<Rightarrow> jsval" where
  "inherited k =
     (if k = ''constructor'' then Builtin Object_constructor
      else if k = ''__proto__'' then Builtin Object_prototype
      else case map_of Object_prototype_methods k of
             Some _ \<Rightarrow> Builtin (Object_method k)
           | None \<Rightarrow> Undefined)"

definition int_num :: "int \<Rightarrow> jsval" where
  "int_num i = Num (Fin (real_of_int i))"

definition table_entry :: "(string \<times> int) list \<Rightarrow> string \<Rightarrow> jsval" where
  "table_entry table k = (case map_of table k of Some n \<Rightarrow> int_num n | None \<Rightarrow> inherited k)"

text \<open>
  A layout name that is none of the three but names a member of \<open>Object.prototype\<close>
  yields that member, and the key is then read on it. A function has its own \<open>length\<close>
  and \<open>name\<close> and inherits from \<open>Function.prototype\<close>, whose \<open>arguments\<close> and \<open>caller\<close>
  throw on a built-in function, and then from \<open>Object.prototype\<close>. Any other layout name
  yields \<open>undefined\<close>, and reading a key on it throws.
\<close>

definition Object_statics :: "string list" where
  "Object_statics =
     [''assign'', ''create'', ''defineProperties'', ''defineProperty'', ''entries'', ''freeze'',
      ''fromEntries'', ''getOwnPropertyDescriptor'', ''getOwnPropertyDescriptors'',
      ''getOwnPropertyNames'', ''getOwnPropertySymbols'', ''getPrototypeOf'', ''groupBy'',
      ''hasOwn'', ''is'', ''isExtensible'', ''isFrozen'', ''isSealed'', ''keys'',
      ''preventExtensions'', ''seal'', ''setPrototypeOf'', ''values'']"

definition function_member :: "string \<Rightarrow> js_error + jsval" where
  "function_member k =
     (if k = ''apply'' \<or> k = ''bind'' \<or> k = ''call'' \<or> k = ''toString''
      then Inr (Builtin (Function_method k))
      else if k = ''constructor'' then Inr (Builtin Function_constructor)
      else if k = ''__proto__'' then Inr (Builtin Function_prototype)
      else if k = ''arguments'' \<or> k = ''caller'' then Inl TypeError
      else Inr (inherited k))"

definition builtin_layout :: "string \<Rightarrow> string \<Rightarrow> js_error + jsval" where
  "builtin_layout lay k =
     (if lay = ''__proto__'' then Inr (if k = ''__proto__'' then Null else inherited k)
      else if lay = ''constructor'' then
        (if k = ''length'' then Inr (Num (Fin 1))
         else if k = ''name'' then Inr (Str ''Object'')
         else if k = ''prototype'' then Inr (Builtin Object_prototype)
         else if k \<in> set Object_statics then Inr (Builtin (Object_static k))
         else function_member k)
      else case map_of Object_prototype_methods lay of
             Some arity \<Rightarrow>
               (if k = ''length'' then Inr (Num (Fin (real arity)))
                else if k = ''name'' then Inr (Str lay)
                else function_member k)
           | None \<Rightarrow> Inl TypeError)"

definition layout_entry :: "string \<Rightarrow> string \<Rightarrow> js_error + jsval" where
  "layout_entry lay k =
     (case map_of layouts lay of
        Some table \<Rightarrow> Inr (table_entry table k)
      | None \<Rightarrow> builtin_layout lay k)"

text \<open>\<open>toLowerCase\<close> on the ASCII letters; other characters are left as they are.\<close>

definition lower_char :: "char \<Rightarrow> char" where
  "lower_char c = (let n = (of_char c :: nat) in if 65 \<le> n \<and> n \<le> 90 then char_of (n + 32) else c)"

definition toLowerCase :: "string \<Rightarrow> string" where
  "toLowerCase s = map lower_char s"

record KeyboardEvent =
  key :: string
  ctrlKey :: bool
  metaKey :: bool
  altKey :: bool
  tagName :: "string option"

text \<open>
  \<open>keysPressed\<close> is a \<open>Set\<close>: its elements in insertion order, without duplicates.
  \<open>listeners\<close> is the adapter's own list of what it registered, as pairs of a target
  and an event name with the name of the handler.
\<close>

datatype target = Document | Window | Element nat

datatype handler =
    KeyDown | KeyUp | KeyBlur
  | TriggerClick
  | ContinuousMove | ContinuousDown | ContinuousUp
  | PadMove | PadDown | PadUp

type_synonym registration = "target \<times> string \<times> handler"

record KeyboardInput =
  layout :: string
  keysPressed :: "string list"
  kb_listeners :: "registration list"

text \<open>
  A handler returns the adapter's state after the call, the events it emitted, and the
  error it threw, if any: what it did before throwing stays done.
\<close>

type_synonym 's outcome = "'s \<times> event list \<times> js_error option"

definition handleKeyDown :: "KeyboardInput \<Rightarrow> KeyboardEvent \<Rightarrow> KeyboardInput outcome" where
  "handleKeyDown st e =
     (if tagName e = Some ''INPUT'' \<or> tagName e = Some ''TEXTAREA'' then (st, [], None)
      else if ctrlKey e \<or> metaKey e \<or> altKey e then (st, [], None)
      else let k = toLowerCase (key e)
           in if k \<in> set (keysPressed st) then (st, [], None)
              else case layout_entry (layout st) k of
                     Inl err \<Rightarrow> (st, [], Some err)
                   | Inr mapping \<Rightarrow>
                       (if mapping \<noteq> Undefined then
                          (let st' = st\<lparr>keysPressed := keysPressed st @ [k]\<rparr>
                           in if layout st = ''drumpad'' then
                                (st', [(''trigger'', [(''index'', mapping),
                                                      (''velocity'', Num (Fin 0.7)),
                                                      (''key'', Str k)])], None)
                              else
                                (st', [(''note-on'', [(''note'', mapping),
                                                      (''velocity'', Num (Fin 0.7)),
                                                      (''key'', Str k)])], None))
                        else (st, [], None)))"

definition handleKeyUp :: "KeyboardInput \<Rightarrow> KeyboardEvent \<Rightarrow> KeyboardInput outcome" where
  "handleKeyUp st e =
     (let k = toLowerCase (key e);
          st' = st\<lparr>keysPressed := removeAll k (keysPressed st)\<rparr>
      in case layout_entry (layout st) k of
           Inl err \<Rightarrow> (st', [], Some err)
         | Inr mapping \<Rightarrow>
             (if mapping \<noteq> Undefined then
                (if layout st \<noteq> ''drumpad'' then
                   (st', [(''note-off'', [(''note'', mapping), (''key'', Str k)])], None)
                 else (st', [], None))
              else (st', [], None)))"

text \<open>
  The body of \<open>keysPressed.forEach\<close> in the blur handler, over the held keys in order; a
  throw ends the loop and keeps what was emitted before it.
\<close>

fun releaseKeys :: "string \<Rightarrow> string list \<Rightarrow> event list \<times> js_error option" where
  "releaseKeys lay [] = ([], None)"
| "releaseKeys lay (k # ks) =
     (case layout_entry lay k of
        Inl err \<Rightarrow> ([], Some err)
      | Inr mapping \<Rightarrow>
          (let evs = (if mapping \<noteq> Undefined \<and> lay \<noteq> ''drumpad'' then
                        [(''note-off'', [(''note'', mapping), (''key'', Str k)])]
                      else []);
               rest = releaseKeys lay ks
           in (evs @ fst rest, snd rest)))"

definition handleBlur :: "KeyboardInput \<Rightarrow> KeyboardInput outcome" where
  "handleBlur st =
     (case releaseKeys (layout st) (keysPressed st) of
        (evs, Some err) \<Rightarrow> (st, evs, Some err)
      | (evs, None) \<Rightarrow> (st\<lparr>keysPressed := []\<rparr>, evs, None))"

text \<open>
  The constructor: \<open>config.layout || 'piano'\<close> (the empty string is falsy), an empty
  held-key set, and the three listeners of \<open>setupListeners\<close>.
\<close>

definition KeyboardInput_new :: "string option \<Rightarrow> KeyboardInput" where
  "KeyboardInput_new config_layout =
     \<lparr>layout = (case config_layout of None \<Rightarrow> ''piano''
                 | Some l \<Rightarrow> if l = [] then ''piano'' else l),
      keysPressed = [],
      kb_listeners = [(Document, ''keydown'', KeyDown), (Document, ''keyup'', KeyUp),
                      (Window, ''blur'', KeyBlur)]\<rparr>"

text \<open>The browser callbacks the keyboard adapter listens to, and a run of them.\<close>

datatype key_input = Down KeyboardEvent | Up KeyboardEvent | Blur

fun key_step :: "KeyboardInput \<Rightarrow> key_input \<Rightarrow> KeyboardInput outcome" where
  "key_step st (Down e) = handleKeyDown st e"
| "key_step st (Up e) = handleKeyUp st e"
| "key_step st Blur = handleBlur st"

fun key_run :: "KeyboardInput \<Rightarrow> key_input list \<Rightarrow> KeyboardInput \<times> event list" where
  "key_run st [] = (st, [])"
| "key_run st (i # is) =
     (case key_step st i of
        (st', evs, _) \<Rightarrow> (case key_run st' is of (st'', evs') \<Rightarrow> (st'', evs @ evs')))"

text \<open>A plain key press or release: no modifier, target not a text field.\<close>

definition plain_key :: "string \<Rightarrow> KeyboardEvent" where
  "plain_key k = \<lparr>key = k, ctrlKey = False, metaKey = False, altKey = False, tagName = Some ''BODY''\<rparr>"

section \<open>The configuration object and the window\<close>

text \<open>
  \<open>enableInput(type, config)\<close> hands the same configuration object to whichever adapter
  it constructs; every property is optional. Only the properties that reach an emitted
  event or a listener registration are kept.
\<close>

record Config =
  cfg_layout :: "string option"
  cfg_mode :: "string option"
  cfg_container :: "target option"
  cfg_minNote :: "jsnum option"
  cfg_maxNote :: "jsnum option"
  cfg_lineY :: "jsnum option"
  cfg_fingerTips :: "nat list option"
  cfg_triggerMode :: "string option"
  cfg_showVideo :: "bool option"

definition no_config :: Config where
  "no_config = \<lparr>cfg_layout = None, cfg_mode = None, cfg_container = None, cfg_minNote = None,
                 cfg_maxNote = None, cfg_lineY = None, cfg_fingerTips = None,
                 cfg_triggerMode = None, cfg_showVideo = None\<rparr>"

text \<open>\<open>s || d\<close> for a string property: absent and empty strings are falsy.\<close>

fun str_or_default :: "string option \<Rightarrow> string \<Rightarrow> string" where
  "str_or_default None d = d"
| "str_or_default (Some s) d = (if s = [] then d else s)"

record Viewport =
  innerWidth :: jsnum
  innerHeight :: jsnum

section \<open>Pointer input adapter (js/input/mouse.js)\<close>

text \<open>
  A mouse event has numeric \<open>clientX\<close>, \<open>clientY\<close> and no \<open>touches\<close>; a touch event has
  a list of touch points, each with its \<open>clientX\<close> and \<open>clientY\<close>, and no coordinates
  of its own.
\<close>

record PointerEvent =
  clientX :: "jsnum option"
  clientY :: "jsnum option"
  touches :: "(jsnum \<times> jsnum) list option"

record MouseInput =
  mode :: string
  container :: target
  minNote :: jsnum
  maxNote :: jsnum
  isPressed :: bool
  ms_listeners :: "registration list"

text \<open>
  \<open>c || (e.touches && e.touches[0].p)\<close> for a coordinate \<open>c\<close> of the event and the
  same coordinate \<open>p\<close> of the first touch point: reading a property of \<open>e.touches[0]\<close>
  throws when the list of touches is empty.
\<close>

definition coordinate :: "jsnum option \<Rightarrow> jsnum list option \<Rightarrow> js_error + jsnum option" where
  "coordinate c ts =
     (if (case c of None \<Rightarrow> False | Some n \<Rightarrow> truthy n) then Inr c
      else case ts of
             None \<Rightarrow> Inr None
           | Some [] \<Rightarrow> Inl TypeError
           | Some (t # _) \<Rightarrow> Inr (Some t))"

definition eventX :: "PointerEvent \<Rightarrow> js_error + jsnum option" where
  "eventX e = coordinate (clientX e) (map_option (map fst) (touches e))"

definition eventY :: "PointerEvent \<Rightarrow> js_error + jsnum option" where
  "eventY e = coordinate (clientY e) (map_option (map snd) (touches e))"

definition xyToNote :: "MouseInput \<Rightarrow> Viewport \<Rightarrow> jsnum option \<Rightarrow> jsnum" where
  "xyToNote st win x =
     (let normalizedX = js_div (ToNumber x) (innerWidth win);
          note = Math_floor (MusicMath_map normalizedX (Fin 0) (Fin 1) (minNote st) (maxNote st))
      in MusicMath_clamp note (minNote st) (maxNote st))"

definition yToVelocity :: "Viewport \<Rightarrow> jsnum option \<Rightarrow> jsnum" where
  "yToVelocity win y =
     (let normalizedY = js_sub (Fin 1) (js_div (ToNumber y) (innerHeight win))
      in MusicMath_clamp normalizedY (Fin 0.2) (Fin 1.0))"

definition handleClick :: "MouseInput \<Rightarrow> Viewport \<Rightarrow> PointerEvent \<Rightarrow> MouseInput outcome" where
  "handleClick st win e =
     (case eventX e of
        Inl err \<Rightarrow> (st, [], Some err)
      | Inr x \<Rightarrow>
          (case eventY e of
             Inl err \<Rightarrow> (st, [], Some err)
           | Inr y \<Rightarrow>
               (let note = xyToNote st win x; velocity = yToVelocity win y
                in (st, [(''note-on'', [(''note'', Num note), (''velocity'', Num velocity),
                                        (''x'', val_of x), (''y'', val_of y)])], None))))"

definition continuous_handleMove :: "MouseInput \<Rightarrow> Viewport \<Rightarrow> PointerEvent \<Rightarrow> MouseInput outcome" where
  "continuous_handleMove st win e =
     (if \<not> isPressed st then (st, [], None)
      else case eventX e of
             Inl err \<Rightarrow> (st, [], Some err)
           | Inr x \<Rightarrow>
               (case eventY e of
                  Inl err \<Rightarrow> (st, [], Some err)
                | Inr y \<Rightarrow>
                    (st, [(''continuous'',
                           [(''x'', Num (js_div (ToNumber x) (innerWidth win))),
                            (''y'', Num (js_div (ToNumber y) (innerHeight win))),
                            (''pressure'', Num (Fin 0.7))])], None)))"

definition continuous_handleDown :: "MouseInput \<Rightarrow> Viewport \<Rightarrow> PointerEvent \<Rightarrow> MouseInput outcome" where
  "continuous_handleDown st win e =
     (let st' = st\<lparr>isPressed := True\<rparr>
      in case eventX e of
           Inl err \<Rightarrow> (st', [], Some err)
         | Inr x \<Rightarrow>
             (case eventY e of
                Inl err \<Rightarrow> (st', [], Some err)
              | Inr y \<Rightarrow>
                  (let note = xyToNote st' win x
                   in (st', [(''note-on'', [(''note'', Num note), (''velocity'', Num (Fin 0.7)),
                                            (''x'', val_of x), (''y'', val_of y)])], None))))"

definition continuous_handleUp :: "MouseInput \<Rightarrow> MouseInput outcome" where
  "continuous_handleUp st = (st\<lparr>isPressed := False\<rparr>, [(''note-off'', [])], None)"

definition xypad_handleMove :: "MouseInput \<Rightarrow> Viewport \<Rightarrow> PointerEvent \<Rightarrow> MouseInput outcome" where
  "xypad_handleMove st win e =
     (case eventX e of
        Inl err \<Rightarrow> (st, [], Some err)
      | Inr x \<Rightarrow>
          (case eventY e of
             Inl err \<Rightarrow> (st, [], Some err)
           | Inr y \<Rightarrow>
               (st, [(''continuous'',
                      [(''x'', Num (js_div (ToNumber x) (innerWidth win))),
                       (''y'', Num (js_div (ToNumber y) (innerHeight win))),
                       (''pressure'', Num (if isPressed st then Fin 1.0 else Fin 0.5))])], None)))"

definition xypad_handleDown :: "MouseInput \<Rightarrow> MouseInput outcome" where
  "xypad_handleDown st = (st\<lparr>isPressed := True\<rparr>, [], None)"

definition xypad_handleUp :: "MouseInput \<Rightarrow> MouseInput outcome" where
  "xypad_handleUp st = (st\<lparr>isPressed := False\<rparr>, [], None)"

text \<open>The listeners each mode registers on the container, in the order of \<open>addEventListener\<close>.\<close>

definition setupTriggerMode :: "target \<Rightarrow> registration list" where
  "setupTriggerMode c = [(c, ''click'', TriggerClick), (c, ''touchstart'', TriggerClick)]"

definition setupContinuousMode :: "target \<Rightarrow> registration list" where
  "setupContinuousMode c =
     [(c, ''mousedown'', ContinuousDown), (c, ''mousemove'', ContinuousMove),
      (c, ''mouseup'', ContinuousUp), (c, ''touchstart'', ContinuousDown),
      (c, ''touchmove'', ContinuousMove), (c, ''touchend'', ContinuousUp)]"

definition setupXYPadMode :: "target \<Rightarrow> registration list" where
  "setupXYPadMode c =
     [(c, ''mousemove'', PadMove), (c, ''touchmove'', PadMove), (c, ''mousedown'', PadDown),
      (c, ''mouseup'', PadUp), (c, ''touchstart'', PadDown), (c, ''touchend'', PadUp)]"

definition mouse_setupListeners :: "string \<Rightarrow> target \<Rightarrow> registration list" where
  "mouse_setupListeners m c =
     (if m = ''trigger'' then setupTriggerMode c
      else if m = ''continuous'' then setupContinuousMode c
      else if m = ''xy-pad'' then setupXYPadMode c
      else [])"

text \<open>\<open>document.body\<close>, the default container.\<close>

definition body :: target where
  "body = Element 0"

definition MouseInput_new :: "Config \<Rightarrow> MouseInput" where
  "MouseInput_new config =
     (let m = str_or_default (cfg_mode config) ''trigger'';
          c = (case cfg_container config of None \<Rightarrow> body | Some t \<Rightarrow> t)
      in \<lparr>mode = m, container = c,
          minNote = or_default (cfg_minNote config) (Fin 48),
          maxNote = or_default (cfg_maxNote config) (Fin 84),
          isPressed = False,
          ms_listeners = mouse_setupListeners m c\<rparr>)"

section \<open>Hand-tracking input adapter (js/input/mediapipe.js)\<close>

text \<open>
  A hand is the list of its landmarks, each with normalised coordinates \<open>x\<close> and \<open>y\<close>.
  \<open>previousPositions\<close> is an object keyed by finger index. \<open>showVideo\<close> is
  \<open>config.showVideo !== false\<close>. Drawing emits nothing and is left out, except where it
  can throw.
\<close>

type_synonym landmark = "jsnum \<times> jsnum"

record MediaPipeInput =
  lineY :: jsnum
  fingerTips :: "nat list"
  triggerMode :: string
  mp_minNote :: jsnum
  mp_maxNote :: jsnum
  previousPositions :: "nat \<Rightarrow> jsnum option"
  showVideo :: bool
  canvasElement :: bool

definition MediaPipeInput_new :: "Config \<Rightarrow> MediaPipeInput" where
  "MediaPipeInput_new config =
     \<lparr>lineY = or_default (cfg_lineY config) (Fin 0.5),
      fingerTips = (case cfg_fingerTips config of None \<Rightarrow> [8] | Some ts \<Rightarrow> ts),
      triggerMode = str_or_default (cfg_triggerMode config) ''cross'',
      mp_minNote = or_default (cfg_minNote config) (Fin 48),
      mp_maxNote = or_default (cfg_maxNote config) (Fin 84),
      previousPositions = (\<lambda>_. None),
      showVideo = (cfg_showVideo config \<noteq> Some False),
      canvasElement = False\<rparr>"

definition checkLineCrossing :: "MediaPipeInput \<Rightarrow> nat \<Rightarrow> jsnum \<Rightarrow> MediaPipeInput \<times> bool" where
  "checkLineCrossing st fingerIndex currentY =
     (let prevY = previousPositions st fingerIndex;
          st' = st\<lparr>previousPositions := (previousPositions st)(fingerIndex \<mapsto> currentY)\<rparr>
      in case prevY of
           None \<Rightarrow> (st', False)
         | Some p \<Rightarrow>
             (if triggerMode st = ''cross'' then
                (st', js_less p (lineY st) \<and> js_geq currentY (lineY st))
              else if triggerMode st = ''continuous'' then
                (st', js_geq currentY (lineY st))
              else (st', False)))"

definition triggerNote :: "MediaPipeInput \<Rightarrow> Viewport \<Rightarrow> jsnum \<Rightarrow> jsnum \<Rightarrow> nat \<Rightarrow> event" where
  "triggerNote st win normalizedX normalizedY fingerIndex =
     (let note = Math_floor (MusicMath_map normalizedX (Fin 0) (Fin 1) (mp_minNote st) (mp_maxNote st));
          screenX = js_mul normalizedX (innerWidth win);
          screenY = js_mul normalizedY (innerHeight win)
      in (''note-on'', [(''note'', Num note), (''velocity'', Num (Fin 0.7)),
                        (''x'', Num screenX), (''y'', Num screenY),
                        (''fingerIndex'', Num (Fin (real fingerIndex)))]))"

text \<open>The body of \<open>fingerTips.forEach\<close> in \<open>processHand\<close>, over the finger indices in order.\<close>

fun processTips :: "MediaPipeInput \<Rightarrow> Viewport \<Rightarrow> landmark list \<Rightarrow> nat list \<Rightarrow> MediaPipeInput \<times> event list" where
  "processTips st win hand [] = (st, [])"
| "processTips st win hand (tipIndex # rest) =
     (case nth_opt hand tipIndex of
        None \<Rightarrow> processTips st win hand rest
      | Some tip \<Rightarrow>
          (let flippedX = js_sub (Fin 1) (fst tip);
               (st', crossed) = checkLineCrossing st tipIndex (snd tip);
               evs = (if crossed then [triggerNote st' win flippedX (snd tip) tipIndex] else []);
               (st'', evs') = processTips st' win hand rest
           in (st'', evs @ evs')))"

definition processHand :: "MediaPipeInput \<Rightarrow> Viewport \<Rightarrow> landmark list \<Rightarrow> MediaPipeInput \<times> event list" where
  "processHand st win hand = processTips st win hand (fingerTips st)"

text \<open>
  \<open>onResults\<close>: clearing the overlay reads \<open>this.canvasElement.width\<close>, which throws once
  the overlay is gone. With \<open>showVideo\<close> the skeleton of every hand of the frame is drawn
  next, and \<open>drawConnectors\<close> reads \<open>x\<close> of the landmarks 0 to 20, which throws on a hand
  with fewer than 21 landmarks. Then the first hand of the frame, if any, is processed.
\<close>

definition onResults :: "MediaPipeInput \<Rightarrow> Viewport \<Rightarrow> landmark list list option \<Rightarrow> MediaPipeInput outcome" where
  "onResults st win multiHandLandmarks =
     (if \<not> canvasElement st then (st, [], Some TypeError)
      else if showVideo st \<and>
              (case multiHandLandmarks of
                 None \<Rightarrow> False
               | Some hands \<Rightarrow> list_ex (\<lambda>hand. length hand < 21) hands)
      then (st, [], Some TypeError)
      else case multiHandLandmarks of
             Some (hand # _) \<Rightarrow> (case processHand st win hand of (st', evs) \<Rightarrow> (st', evs, None))
           | _ \<Rightarrow> (st, [], None))"


section \<open>MIDI input adapter: ports and life cycle\<close>

text \<open>
  \<open>connectedInputs\<close> is a \<open>Map\<close> from port id to port: the ids in insertion order.
  \<open>midiAccess\<close> is set once access was granted.
\<close>

record MidiInput =
  midiAccess :: bool
  connectedInputs :: "nat list"

record StateChange =
  port_id :: nat
  port_type :: string
  port_state :: string

section \<open>Input manager and the browser around it\<close>

datatype adapter =
    KeyboardA KeyboardInput
  | MouseA MouseInput
  | MidiA MidiInput
  | MediaPipeA MediaPipeInput

text \<open>
  The state of the page. Adapters are objects: \<open>heap\<close> maps a reference to the
  adapter's state, and a listener closure is the reference of the adapter it captured
  with the name of the handler. \<open>registered\<close> is what \<open>addEventListener\<close> has added and
  \<open>removeEventListener\<close> has not removed, in order. \<open>onmidimessage\<close> and \<open>onstatechange\<close>
  are the handler properties of the MIDI ports and of the MIDI access object.
  \<open>dispatched\<close> lists the events dispatched on the manager so far. The last five fields
  say what the environment offers: the Web MIDI API, the user's permission, the ids of
  the input ports present, the hand-tracking library, and a camera that starts.
\<close>

record World =
  viewport :: Viewport
  registered :: "(nat \<times> registration) list"
  heap :: "nat \<Rightarrow> adapter option"
  next_ref :: nat
  activeInputs :: "string list"
  inputModules :: "string \<Rightarrow> nat option"
  dispatched :: "event list"
  onmidimessage :: "nat \<Rightarrow> nat option"
  onstatechange :: "nat option"
  midi_supported :: bool
  midi_granted :: bool
  midi_inputs :: "nat list"
  hands_loaded :: bool
  camera_starts :: bool

definition set_add :: "'a \<Rightarrow> 'a list \<Rightarrow> 'a list" where
  "set_add x xs = (if x \<in> set xs then xs else xs @ [x])"

text \<open>\<open>new InputManager()\<close> on a page where nothing is registered yet.\<close>

definition new_world :: "Viewport \<Rightarrow> World" where
  "new_world win =
     \<lparr>viewport = win, registered = [], heap = (\<lambda>_. None), next_ref = 0,
      activeInputs = [], inputModules = (\<lambda>_. None), dispatched = [],
      onmidimessage = (\<lambda>_. None), onstatechange = None,
      midi_supported = False, midi_granted = False, midi_inputs = [],
      hands_loaded = False, camera_starts = False\<rparr>"

text \<open>Allocating an adapter object and adding its listeners.\<close>

definition alloc :: "adapter \<Rightarrow> registration list \<Rightarrow> World \<Rightarrow> World" where
  "alloc a regs w =
     w\<lparr>heap := (heap w)(next_ref w \<mapsto> a),
       registered := registered w @ map (\<lambda>r. (next_ref w, r)) regs,
       next_ref := Suc (next_ref w)\<rparr>"

text \<open>\<open>connectToInputs\<close>: the body of the loop over \<open>midiAccess.inputs.values()\<close>.\<close>

fun connectToInputs :: "nat \<Rightarrow> nat list \<Rightarrow> (nat \<Rightarrow> nat option) \<times> nat list \<Rightarrow> (nat \<Rightarrow> nat option) \<times> nat list" where
  "connectToInputs self [] (handlers, conn) = (handlers, conn)"
| "connectToInputs self (p # ps) (handlers, conn) =
     connectToInputs self ps (handlers(p \<mapsto> self), set_add p conn)"

text \<open>
  \<open>MidiInput.create\<close>: the new adapter's reference on success. The state-change handler
  is installed before the check for devices, so it stays installed when the check throws.
\<close>

definition MidiInput_create :: "World \<Rightarrow> World \<times> (js_error + nat)" where
  "MidiInput_create w =
     (let self = next_ref w;
          w1 = w\<lparr>heap := (heap w)(self \<mapsto> MidiA \<lparr>midiAccess = False, connectedInputs = []\<rparr>),
                 next_ref := Suc self\<rparr>
      in if \<not> midi_supported w then
           (w1, Inl (Error ''Web MIDI API not supported in this browser''))
         else if \<not> midi_granted w then (w1, Inl (Error ''requestMIDIAccess rejected''))
         else
           (let (handlers, conn) = connectToInputs self (midi_inputs w) (onmidimessage w, []);
                w2 = w1\<lparr>heap := (heap w1)(self \<mapsto> MidiA \<lparr>midiAccess = True, connectedInputs = conn\<rparr>),
                        onmidimessage := handlers,
                        onstatechange := Some self\<rparr>
            in if length (midi_inputs w) = 0 then (w2, Inl (Error ''No MIDI devices detected''))
               else (w2, Inr self)))"

text \<open>
  \<open>MediaPipeInput.create\<close>: \<open>init\<close> throws when the library is missing or the camera
  does not start, after calling \<open>cleanup\<close>; otherwise the overlay exists.
\<close>

definition MediaPipeInput_create :: "Config \<Rightarrow> World \<Rightarrow> World \<times> (js_error + nat)" where
  "MediaPipeInput_create config w =
     (let self = next_ref w;
          st = MediaPipeInput_new config;
          w1 = w\<lparr>heap := (heap w)(self \<mapsto> MediaPipeA st), next_ref := Suc self\<rparr>
      in if \<not> hands_loaded w then (w1, Inl (Error ''MediaPipe Hands library not loaded''))
         else if \<not> camera_starts w then (w1, Inl (Error ''camera failed to start''))
         else (w1\<lparr>heap := (heap w1)(self \<mapsto> MediaPipeA (st\<lparr>canvasElement := True\<rparr>))\<rparr>, Inr self))"

definition enableInput :: "string \<Rightarrow> Config \<Rightarrow> World \<Rightarrow> World \<times> js_error option" where
  "enableInput type config w =
     (if type = ''mouse'' then
        (let a = MouseInput_new config;
             w' = alloc (MouseA a) (ms_listeners a) w
         in (w'\<lparr>inputModules := (inputModules w')(''mouse'' \<mapsto> next_ref w),
                activeInputs := set_add type (activeInputs w')\<rparr>, None))
      else if type = ''keyboard'' then
        (let a = KeyboardInput_new (cfg_layout config);
             w' = alloc (KeyboardA a) (kb_listeners a) w
         in (w'\<lparr>inputModules := (inputModules w')(''keyboard'' \<mapsto> next_ref w),
                activeInputs := set_add type (activeInputs w')\<rparr>, None))
      else if type = ''midi'' then
        (case MidiInput_create w of
           (w', Inl err) \<Rightarrow> (w', Some err)
         | (w', Inr r) \<Rightarrow>
             (w'\<lparr>inputModules := (inputModules w')(''midi'' \<mapsto> r),
                 activeInputs := set_add type (activeInputs w')\<rparr>, None))
      else if type = ''mediapipe'' then
        (case MediaPipeInput_create config w of
           (w', Inl err) \<Rightarrow> (w', Some err)
         | (w', Inr r) \<Rightarrow>
             (w'\<lparr>inputModules := (inputModules w')(''mediapipe'' \<mapsto> r),
                 activeInputs := set_add type (activeInputs w')\<rparr>, None))
      else (w, Some (Error (''Unknown input type: '' @ type))))"

text \<open>
  \<open>cleanup\<close> of each adapter. Keyboard and pointer remove the listeners they recorded;
  MIDI clears the message handler of every port in \<open>connectedInputs\<close>; hand tracking
  removes its overlay and forgets the finger positions.
\<close>

fun clear_handlers :: "nat list \<Rightarrow> (nat \<Rightarrow> nat option) \<Rightarrow> (nat \<Rightarrow> nat option)" where
  "clear_handlers [] handlers = handlers"
| "clear_handlers (p # ps) handlers = clear_handlers ps (handlers(p := None))"

fun cleanup :: "nat \<Rightarrow> adapter \<Rightarrow> World \<Rightarrow> World" where
  "cleanup r (KeyboardA a) w =
     w\<lparr>registered := filter (\<lambda>l. l \<notin> set (map (\<lambda>g. (r, g)) (kb_listeners a))) (registered w),
       heap := (heap w)(r \<mapsto> KeyboardA (a\<lparr>kb_listeners := []\<rparr>))\<rparr>"
| "cleanup r (MouseA a) w =
     w\<lparr>registered := filter (\<lambda>l. l \<notin> set (map (\<lambda>g. (r, g)) (ms_listeners a))) (registered w),
       heap := (heap w)(r \<mapsto> MouseA (a\<lparr>ms_listeners := []\<rparr>))\<rparr>"
| "cleanup r (MidiA a) w =
     (if midiAccess a then
        w\<lparr>onmidimessage := clear_handlers (connectedInputs a) (onmidimessage w),
          heap := (heap w)(r \<mapsto> MidiA (a\<lparr>connectedInputs := []\<rparr>))\<rparr>
      else w)"
| "cleanup r (MediaPipeA a) w =
     w\<lparr>heap := (heap w)(r \<mapsto> MediaPipeA (a\<lparr>canvasElement := False, previousPositions := (\<lambda>_. None)\<rparr>))\<rparr>"

definition disableInput :: "string \<Rightarrow> World \<Rightarrow> World" where
  "disableInput type w =
     (case inputModules w type of
        None \<Rightarrow> w
      | Some r \<Rightarrow>
          (let w' = (case heap w r of None \<Rightarrow> w | Some a \<Rightarrow> cleanup r a w)
           in w'\<lparr>inputModules := (inputModules w')(type := None),
                 activeInputs := removeAll type (activeInputs w')\<rparr>))"

definition disableAll :: "World \<Rightarrow> World" where
  "disableAll w = fold disableInput (activeInputs w) w"

text \<open>
  What the browser delivers. A DOM event is dispatched at a target under a name; the
  listeners registered for that target and name run in the order of registration, each
  on its own adapter. A thrown error ends the handler that threw, not the dispatch.
\<close>

datatype dom_event = KeyEv KeyboardEvent | PointerEv PointerEvent | FocusEv

definition keyboard_handler :: "handler \<Rightarrow> KeyboardInput \<Rightarrow> dom_event \<Rightarrow> KeyboardInput outcome" where
  "keyboard_handler h a ev =
     (if h = KeyBlur then handleBlur a
      else case ev of
             KeyEv e \<Rightarrow>
               (if h = KeyDown then handleKeyDown a e
                else if h = KeyUp then handleKeyUp a e
                else (a, [], None))
           | _ \<Rightarrow> (a, [], None))"

definition mouse_handler :: "handler \<Rightarrow> MouseInput \<Rightarrow> Viewport \<Rightarrow> dom_event \<Rightarrow> MouseInput outcome" where
  "mouse_handler h a win ev =
     (if h = ContinuousUp then continuous_handleUp a
      else if h = PadDown then xypad_handleDown a
      else if h = PadUp then xypad_handleUp a
      else case ev of
             PointerEv e \<Rightarrow>
               (if h = TriggerClick then handleClick a win e
                else if h = ContinuousMove then continuous_handleMove a win e
                else if h = ContinuousDown then continuous_handleDown a win e
                else if h = PadMove then xypad_handleMove a win e
                else (a, [], None))
           | _ \<Rightarrow> (a, [], None))"

definition run_handler :: "handler \<Rightarrow> adapter \<Rightarrow> Viewport \<Rightarrow> dom_event \<Rightarrow> adapter \<times> event list" where
  "run_handler h a win ev =
     (case a of
        KeyboardA k \<Rightarrow> (case keyboard_handler h k ev of (k', evs, _) \<Rightarrow> (KeyboardA k', evs))
      | MouseA m \<Rightarrow> (case mouse_handler h m win ev of (m', evs, _) \<Rightarrow> (MouseA m', evs))
      | _ \<Rightarrow> (a, []))"

fun deliver :: "(nat \<times> registration) list \<Rightarrow> target \<Rightarrow> string \<Rightarrow> dom_event \<Rightarrow> World \<Rightarrow> World" where
  "deliver [] tg name ev w = w"
| "deliver ((r, (tg', name', h)) # ls) tg name ev w =
     (if tg' = tg \<and> name' = name then
        (case heap w r of
           None \<Rightarrow> deliver ls tg name ev w
         | Some a \<Rightarrow>
             (case run_handler h a (viewport w) ev of
                (a', evs) \<Rightarrow>
                  deliver ls tg name ev
                    (w\<lparr>heap := (heap w)(r \<mapsto> a'), dispatched := dispatched w @ evs\<rparr>)))
      else deliver ls tg name ev w)"

definition dispatchEvent :: "target \<Rightarrow> string \<Rightarrow> dom_event \<Rightarrow> World \<Rightarrow> World" where
  "dispatchEvent tg name ev w = deliver (registered w) tg name ev w"

text \<open>
  \<open>handleStateChange\<close> of the adapter at reference \<open>self\<close>, and the arrival of a
  state-change event: the port joins or leaves the inputs present, then the handler
  installed on the access object runs.
\<close>

definition handleStateChange :: "nat \<Rightarrow> MidiInput \<Rightarrow> StateChange \<Rightarrow> World \<Rightarrow> World" where
  "handleStateChange self a e w =
     (if port_type e = ''input'' then
        (if port_state e = ''connected'' then
           w\<lparr>onmidimessage := (onmidimessage w)(port_id e \<mapsto> self),
             heap := (heap w)(self \<mapsto> MidiA (a\<lparr>connectedInputs := set_add (port_id e) (connectedInputs a)\<rparr>))\<rparr>
         else if port_state e = ''disconnected'' then
           w\<lparr>heap := (heap w)(self \<mapsto> MidiA (a\<lparr>connectedInputs := removeAll (port_id e) (connectedInputs a)\<rparr>))\<rparr>
         else w)
      else w)"

definition statechange :: "StateChange \<Rightarrow> World \<Rightarrow> World" where
  "statechange e w =
     (let w' = (if port_type e = ''input'' \<and> port_state e = ''connected'' then
                  w\<lparr>midi_inputs := set_add (port_id e) (midi_inputs w)\<rparr>
                else if port_type e = ''input'' \<and> port_state e = ''disconnected'' then
                  w\<lparr>midi_inputs := removeAll (port_id e) (midi_inputs w)\<rparr>
                else w)
      in case onstatechange w' of
           None \<Rightarrow> w'
         | Some self \<Rightarrow>
             (case heap w' self of
                Some (MidiA a) \<Rightarrow> handleStateChange self a e w'
              | _ \<Rightarrow> w'))"

text \<open>A MIDI message arriving on a port runs the port's message handler, if it has one.\<close>

definition midimessage :: "nat \<Rightarrow> 8 word list \<Rightarrow> World \<Rightarrow> World" where
  "midimessage p data w =
     (case onmidimessage w p of
        None \<Rightarrow> w
      | Some self \<Rightarrow> w\<lparr>dispatched := dispatched w @ handleMidiMessage data\<rparr>)"

section \<open>The range invariant of musical events\<close>

text \<open>
  A note is an integer from 0 to 127; a velocity, a pressure and the coordinates of a
  \<open>continuous\<close> event are numbers from 0 to 1. A field the event does not carry is not
  constrained. (The \<open>x\<close> and \<open>y\<close> of a note-on are the pointer's position in pixels.)
\<close>

fun is_note :: "jsval \<Rightarrow> bool" where
  "is_note Undefined = True"
| "is_note (Num (Fin r)) = (of_int \<lfloor>r\<rfloor> = r \<and> 0 \<le> r \<and> r \<le> 127)"
| "is_note _ = False"

fun in_unit :: "jsval \<Rightarrow> bool" where
  "in_unit Undefined = True"
| "in_unit (Num (Fin r)) = (0 \<le> r \<and> r \<le> 1)"
| "in_unit _ = False"

definition range_invariant :: "event \<Rightarrow> bool" where
  "range_invariant e =
     (is_note (field e ''note'') \<and> in_unit (field e ''velocity'') \<and>
      in_unit (field e ''pressure'') \<and>
      (if fst e = ''continuous'' then in_unit (field e ''x'') \<and> in_unit (field e ''y'') else True))"

text \<open>A landmark whose \<open>x\<close> lies inside the camera frame.\<close>

fun in_frame :: "landmark \<Rightarrow> bool" where
  "in_frame (Fin x, _) = (0 \<le> x \<and> x \<le> 1)"
| "in_frame _ = False"

section \<open>Auxiliary facts\<close>

lemma nth_opt_three:
  "nth_opt [s, n, v] 0 = Some s" "nth_opt [s, n, v] 1 = Some n" "nth_opt [s, n, v] 2 = Some v"
  by (simp_all add: numeral_2_eq_2)

lemma unsigned_byte_pos: "(0 < (unsigned (v::8 word) :: real)) = (v \<noteq> 0)"
proof -
  have "(0 < real (unat v)) = (0 < unat v)" by (rule of_nat_0_less_iff)
  also have "\<dots> = (v \<noteq> 0)" by (rule unat_gt_0)
  finally show ?thesis by simp
qed

lemma handleMidiMessage_three:
  "handleMidiMessage [s, n, v] =
     (if s AND 0xf0 = 0x90 then
        (if v \<noteq> 0 then
           [(''note-on'', [(''note'', word_num n), (''velocity'', Num (Fin (real (unat v) / 127))),
                           (''channel'', word_num (s AND 0x0f))])]
         else [(''note-off'', [(''note'', word_num n), (''channel'', word_num (s AND 0x0f))])])
      else if s AND 0xf0 = 0x80 then
        [(''note-off'', [(''note'', word_num n), (''channel'', word_num (s AND 0x0f))])]
      else if s AND 0xf0 = 0xb0 then
        [(''control-change'', [(''control'', word_num n), (''value'', Num (Fin (real (unat v) / 127))),
                               (''channel'', word_num (s AND 0x0f))])]
      else [])"
  unfolding handleMidiMessage_def Let_def nth_opt_three
  by (simp add: bit_and_def byte_num_def word_num_def js_greater_def unsigned_byte_pos)

lemma toLowerCase_q: "toLowerCase ''q'' = ''q''"
  by code_simp

lemma toLowerCase_w: "toLowerCase ''w'' = ''w''"
  by code_simp

lemma piano_q: "map_of piano ''q'' = Some 60"
  by (simp add: piano_def)

lemma piano_w: "map_of piano ''w'' = Some 62"
  by (simp add: piano_def)

lemma layouts_piano: "map_of layouts ''piano'' = Some piano"
  by (simp add: layouts_def)

lemma layouts_drumpad: "map_of layouts ''drumpad'' = Some drumpad"
  by (simp add: layouts_def)

lemma int_num_defined: "int_num n \<noteq> Undefined"
  by (simp add: int_num_def)

lemma table_entry_own: "map_of table k = Some n \<Longrightarrow> table_entry table k = int_num n"
  by (simp add: table_entry_def)

lemma table_entry_piano_q: "table_entry piano ''q'' = Num (Fin 60)"
  by (simp add: table_entry_def piano_q int_num_def)

lemma table_entry_piano_w: "table_entry piano ''w'' = Num (Fin 62)"
  by (simp add: table_entry_def piano_w int_num_def)

lemma table_entry_piano_F1: "table_entry piano ''F1'' = Undefined"
  by (simp add: table_entry_def piano_def inherited_def Object_prototype_methods_def)

lemma layout_entry_known:
  "map_of layouts lay = Some table \<Longrightarrow> layout_entry lay k = Inr (table_entry table k)"
  by (simp add: layout_entry_def)

lemma releaseKeys_known:
  "map_of layouts lay = Some table \<Longrightarrow>
   releaseKeys lay ks =
     (concat (map (\<lambda>k. if table_entry table k \<noteq> Undefined \<and> lay \<noteq> ''drumpad''
                        then [(''note-off'', [(''note'', table_entry table k), (''key'', Str k)])]
                        else []) ks), None)"
  by (induction ks) (simp_all add: layout_entry_known Let_def)

lemma releaseKeys_drumpad: "releaseKeys ''drumpad'' ks = ([], None)"
  by (simp add: releaseKeys_known [OF layouts_drumpad])

lemma key_step_layout: "key_step st i = (st', evs, err) \<Longrightarrow> layout st' = layout st"
  by (cases i)
     (auto simp: handleKeyDown_def handleKeyUp_def handleBlur_def Let_def
           split: if_splits sum.splits option.splits prod.splits)

lemma key_step_drumpad:
  "layout st = ''drumpad'' \<Longrightarrow> key_step st i = (st', evs, err) \<Longrightarrow> e \<in> set evs \<Longrightarrow>
   fst e = ''trigger''"
  by (cases i)
     (auto simp: handleKeyDown_def handleKeyUp_def handleBlur_def Let_def releaseKeys_drumpad
           split: if_splits sum.splits option.splits prod.splits)

section \<open>Range mapping\<close>

lemma map_example: "MusicMath_map (Fin 5) (Fin 0) (Fin 10) (Fin 0) (Fin 100) = Fin 50"
  by (simp add: MusicMath_map_def js_sub_def)

lemma map_degenerate:
  "MusicMath_map (Fin x) (Fin a) (Fin a) (Fin 0) (Fin 1) =
     (if x = a then Fin 0 else if a < x then PInf else NInf)"
  by (auto simp add: MusicMath_map_def js_sub_def signed_inf_def)

text \<open>
  C5. The claim: \<open>map(5,0,10,0,100)\<close> is 50, and over a zero-width input range
  \<open>map(x, a, a, 0, 1)\<close> is the output minimum 0 for every \<open>x\<close>, never \<open>NaN\<close> or an
  infinity. The guard of \<open>map\<close> only catches \<open>NaN\<close>, which the division by zero gives
  for \<open>x = a\<close> alone: \<open>map(1, 0, 0, 0, 1)\<close> is \<open>Infinity\<close>.
\<close>

theorem map_zero_width_range_infinity:
  "MusicMath_map (Fin 1) (Fin 0) (Fin 0) (Fin 0) (Fin 1) = PInf"
  by (simp add: MusicMath_map_def js_sub_def signed_inf_def)

section \<open>MIDI decoding\<close>

text \<open>
  C4. A three-byte message is decoded by the high nibble of its status byte: \<open>0x90\<close> with
  a non-zero velocity byte gives a note-on with velocity byte/127, \<open>0x90\<close> with velocity
  byte 0 gives a note-off for that note, \<open>0x80\<close> gives a note-off, \<open>0xB0\<close> gives a
  control-change with value byte/127, and any other status gives no event. The bytes
  \<open>[0x90, 60, 0]\<close> give a note-off for note 60.
\<close>

theorem midi_decode_by_status_nibble:
  "(s AND 0xf0 = 0x90 \<and> v \<noteq> 0 \<longrightarrow>
      handleMidiMessage [s, n, v] =
        [(''note-on'', [(''note'', word_num n), (''velocity'', Num (Fin (real (unat v) / 127))),
                        (''channel'', word_num (s AND 0x0f))])]) \<and>
   (s AND 0xf0 = 0x90 \<and> v = 0 \<longrightarrow>
      handleMidiMessage [s, n, v] =
        [(''note-off'', [(''note'', word_num n), (''channel'', word_num (s AND 0x0f))])]) \<and>
   (s AND 0xf0 = 0x80 \<longrightarrow>
      handleMidiMessage [s, n, v] =
        [(''note-off'', [(''note'', word_num n), (''channel'', word_num (s AND 0x0f))])]) \<and>
   (s AND 0xf0 = 0xb0 \<longrightarrow>
      handleMidiMessage [s, n, v] =
        [(''control-change'', [(''control'', word_num n),
                               (''value'', Num (Fin (real (unat v) / 127))),
                               (''channel'', word_num (s AND 0x0f))])]) \<and>
   (s AND 0xf0 \<noteq> 0x90 \<and> s AND 0xf0 \<noteq> 0x80 \<and> s AND 0xf0 \<noteq> 0xb0 \<longrightarrow>
      handleMidiMessage [s, n, v] = []) \<and>
   handleMidiMessage [0x90, 60, 0] =
     [(''note-off'', [(''note'', Num (Fin 60)), (''channel'', Num (Fin 0))])]"
  by (simp add: handleMidiMessage_three word_num_def)

theorem midi_decode_by_status_nibble_witness:
  "handleMidiMessage [0x93, 60, 100] =
     [(''note-on'', [(''note'', Num (Fin 60)), (''velocity'', Num (Fin (100 / 127))),
                     (''channel'', Num (Fin 3))])] \<and>
   handleMidiMessage [0x93, 60, 0] =
     [(''note-off'', [(''note'', Num (Fin 60)), (''channel'', Num (Fin 3))])] \<and>
   handleMidiMessage [0x81, 60, 64] =
     [(''note-off'', [(''note'', Num (Fin 60)), (''channel'', Num (Fin 1))])] \<and>
   handleMidiMessage [0xb0, 7, 127] =
     [(''control-change'', [(''control'', Num (Fin 7)), (''value'', Num (Fin 1)),
                            (''channel'', Num (Fin 0))])] \<and>
   handleMidiMessage [0xe0, 0, 64] = []"
  using midi_decode_by_status_nibble [where s = "0x93" and n = 60 and v = 100]
        midi_decode_by_status_nibble [where s = "0x93" and n = 60 and v = 0]
        midi_decode_by_status_nibble [where s = "0x81" and n = 60 and v = 64]
        midi_decode_by_status_nibble [where s = "0xb0" and n = 7 and v = 127]
        midi_decode_by_status_nibble [where s = "0xe0" and n = 0 and v = 64]
  by (simp add: word_num_def)

section \<open>Keyboard adapter\<close>

text \<open>
  C8. Under the piano layout a keydown of \<open>q\<close> (note 60) puts \<open>q\<close> in the held-key set;
  a blur then emits exactly one note-off, for note 60, and leaves the held-key set
  empty. In general, under a layout other than the drum pad, blur emits one note-off
  for each held key for which the layout's table yields a value, in the order the keys
  were pressed, and clears the held-key set.
\<close>

theorem keyboard_blur_releases_held_keys:
  "handleKeyDown (KeyboardInput_new (Some ''piano'')) (plain_key ''q'') =
     ((KeyboardInput_new (Some ''piano''))\<lparr>keysPressed := [''q'']\<rparr>,
      [(''note-on'', [(''note'', Num (Fin 60)), (''velocity'', Num (Fin 0.7)), (''key'', Str ''q'')])],
      None) \<and>
   handleBlur ((KeyboardInput_new (Some ''piano''))\<lparr>keysPressed := [''q'']\<rparr>) =
     ((KeyboardInput_new (Some ''piano''))\<lparr>keysPressed := []\<rparr>,
      [(''note-off'', [(''note'', Num (Fin 60)), (''key'', Str ''q'')])], None) \<and>
   (map_of layouts (layout st) = Some table \<and> layout st \<noteq> ''drumpad'' \<longrightarrow>
      handleBlur st =
        (st\<lparr>keysPressed := []\<rparr>,
         concat (map (\<lambda>k. if table_entry table k \<noteq> Undefined
                            then [(''note-off'', [(''note'', table_entry table k), (''key'', Str k)])]
                            else [])
                     (keysPressed st)),
         None)) \<and>
   (map_of table k = Some n \<longrightarrow> table_entry table k = int_num n \<and> int_num n \<noteq> Undefined)"
proof (intro conjI impI)
  show "handleKeyDown (KeyboardInput_new (Some ''piano'')) (plain_key ''q'') =
     ((KeyboardInput_new (Some ''piano''))\<lparr>keysPressed := [''q'']\<rparr>,
      [(''note-on'', [(''note'', Num (Fin 60)), (''velocity'', Num (Fin 0.7)), (''key'', Str ''q'')])],
      None)"
    by (simp add: handleKeyDown_def KeyboardInput_new_def plain_key_def toLowerCase_q
          layout_entry_known [OF layouts_piano] table_entry_piano_q Let_def)
  show "handleBlur ((KeyboardInput_new (Some ''piano''))\<lparr>keysPressed := [''q'']\<rparr>) =
     ((KeyboardInput_new (Some ''piano''))\<lparr>keysPressed := []\<rparr>,
      [(''note-off'', [(''note'', Num (Fin 60)), (''key'', Str ''q'')])], None)"
    by (simp add: handleBlur_def KeyboardInput_new_def layout_entry_known [OF layouts_piano]
          table_entry_piano_q)
next
  assume "map_of layouts (layout st) = Some table \<and> layout st \<noteq> ''drumpad''"
  then show "handleBlur st =
        (st\<lparr>keysPressed := []\<rparr>,
         concat (map (\<lambda>k. if table_entry table k \<noteq> Undefined
                            then [(''note-off'', [(''note'', table_entry table k), (''key'', Str k)])]
                            else [])
                     (keysPressed st)),
         None)"
    by (simp add: handleBlur_def releaseKeys_known)
next
  assume "map_of table k = Some n"
  then show "table_entry table k = int_num n" by (rule table_entry_own)
next
  show "int_num n \<noteq> Undefined" by (rule int_num_defined)
qed

theorem keyboard_blur_releases_held_keys_witness:
  "handleBlur ((KeyboardInput_new (Some ''piano''))\<lparr>keysPressed := [''q'', ''F1'', ''w'']\<rparr>) =
     (KeyboardInput_new (Some ''piano''),
      [(''note-off'', [(''note'', Num (Fin 60)), (''key'', Str ''q'')]),
       (''note-off'', [(''note'', Num (Fin 62)), (''key'', Str ''w'')])], None) \<and>
   table_entry piano ''q'' = Num (Fin 60)"
  using keyboard_blur_releases_held_keys
          [where st = "(KeyboardInput_new (Some ''piano''))\<lparr>keysPressed := [''q'', ''F1'', ''w'']\<rparr>"
             and table = piano and k = "''q''" and n = 60]
  by (simp add: KeyboardInput_new_def layouts_piano piano_q table_entry_piano_q table_entry_piano_w
        table_entry_piano_F1 int_num_def)

text \<open>
  C9. Under the drum-pad layout no run of keydown, keyup and blur events emits a
  note-off: every event the adapter emits is a trigger.
\<close>

theorem drumpad_never_emits_note_off:
  "layout st = ''drumpad'' \<Longrightarrow> e \<in> set (snd (key_run st inputs)) \<Longrightarrow>
   fst e = ''trigger'' \<and> fst e \<noteq> ''note-off''"
proof (induction inputs arbitrary: st)
  case Nil
  then show ?case by simp
next
  case (Cons i inputs)
  obtain st' evs err where step: "key_step st i = (st', evs, err)"
    by (cases "key_step st i") auto
  obtain st'' evs' where run: "key_run st' inputs = (st'', evs')"
    by (cases "key_run st' inputs") auto
  from step Cons.prems(1) have lay: "layout st' = ''drumpad''"
    by (simp add: key_step_layout)
  from Cons.prems(2) step run have "e \<in> set evs \<or> e \<in> set evs'"
    by simp
  then show ?case
  proof
    assume "e \<in> set evs"
    with Cons.prems(1) step have "fst e = ''trigger''" by (rule key_step_drumpad)
    then show ?thesis by simp
  next
    assume "e \<in> set evs'"
    with run have "e \<in> set (snd (key_run st' inputs))" by simp
    with lay show ?thesis by (rule Cons.IH)
  qed
qed

theorem drumpad_never_emits_note_off_witness:
  "snd (key_run (KeyboardInput_new (Some ''drumpad''))
          [Down (plain_key ''q''), Down (plain_key ''q''), Up (plain_key ''q''), Blur]) =
     [(''trigger'', [(''index'', Num (Fin 0)), (''velocity'', Num (Fin 0.7)), (''key'', Str ''q'')])] \<and>
   fst (''trigger'', [(''index'', Num (Fin 0)), (''velocity'', Num (Fin 0.7)), (''key'', Str ''q'')])
     \<noteq> ''note-off''"
  using drumpad_never_emits_note_off
          [where st = "KeyboardInput_new (Some ''drumpad'')"
             and inputs = "[Down (plain_key ''q''), Down (plain_key ''q''), Up (plain_key ''q''), Blur]"
             and e = "(''trigger'', [(''index'', Num (Fin 0)), (''velocity'', Num (Fin 0.7)),
                                     (''key'', Str ''q'')])"]
  by (simp add: handleKeyDown_def handleKeyUp_def handleBlur_def KeyboardInput_new_def
        plain_key_def toLowerCase_q layout_entry_known [OF layouts_drumpad] table_entry_def
        drumpad_def int_num_def Let_def)

text \<open>
  C10. Under a layout other than the drum pad, a keyup of a key that the layout maps
  emits a note-off for the mapped note whatever the held-key set is, so also when no
  note-on was emitted for that key: a keydown of \<open>q\<close> with ctrl held emits nothing and
  holds nothing, and the keyup of \<open>q\<close> that follows still emits a note-off for note 60.
\<close>

theorem keyup_emits_note_off_without_note_on:
  "(layout st \<noteq> ''drumpad'' \<and> map_of layouts (layout st) = Some table \<and>
    map_of table (toLowerCase (key e)) = Some n \<longrightarrow>
      fst (snd (handleKeyUp st e)) =
        [(''note-off'', [(''note'', int_num n), (''key'', Str (toLowerCase (key e)))])]) \<and>
   handleKeyDown (KeyboardInput_new (Some ''piano'')) ((plain_key ''q'')\<lparr>ctrlKey := True\<rparr>) =
     (KeyboardInput_new (Some ''piano''), [], None) \<and>
   key_run (KeyboardInput_new (Some ''piano''))
       [Down ((plain_key ''q'')\<lparr>ctrlKey := True\<rparr>), Up (plain_key ''q'')] =
     (KeyboardInput_new (Some ''piano''),
      [(''note-off'', [(''note'', Num (Fin 60)), (''key'', Str ''q'')])])"
  by (simp add: handleKeyDown_def handleKeyUp_def KeyboardInput_new_def plain_key_def
        toLowerCase_q layout_entry_known [OF layouts_piano] layout_entry_known table_entry_own
        int_num_defined table_entry_piano_q Let_def)

theorem keyup_emits_note_off_without_note_on_witness:
  "fst (snd (handleKeyUp (KeyboardInput_new (Some ''piano'')) (plain_key ''w''))) =
     [(''note-off'', [(''note'', Num (Fin 62)), (''key'', Str ''w'')])]"
  using keyup_emits_note_off_without_note_on
          [where st = "KeyboardInput_new (Some ''piano'')" and table = piano
             and e = "plain_key ''w''" and n = 62]
  by (simp add: KeyboardInput_new_def plain_key_def toLowerCase_w layouts_piano piano_w int_num_def)

section \<open>Hand-tracking adapter\<close>






lemma MediaPipeInput_new_default:
  "MediaPipeInput_new no_config =
     \<lparr>lineY = Fin 0.5, fingerTips = [8], triggerMode = ''cross'', mp_minNote = Fin 48,
      mp_maxNote = Fin 84, previousPositions = (\<lambda>_. None), showVideo = True,
      canvasElement = False\<rparr>"
  by (simp add: MediaPipeInput_new_def no_config_def)


section \<open>Pointer adapter\<close>

lemma map_never_NaN: "\<not> isNaN outMin \<Longrightarrow> \<not> isNaN (MusicMath_map v a b outMin outMax)"
  by (simp add: MusicMath_map_def Let_def)

lemma clamp_Fin: "MusicMath_clamp (Fin d) (Fin lo) (Fin hi) = Fin (min (max d lo) hi)"
  by (auto simp: MusicMath_clamp_def min_def max_def)

lemma clamp_int_window:
  assumes "\<not> isNaN v" "a \<le> b"
  shows "\<exists>n. MusicMath_clamp (Math_floor v) (Fin (of_int a)) (Fin (of_int b)) = Fin (of_int n) \<and>
             a \<le> n \<and> n \<le> b"
proof (cases v)
  case (Fin r)
  have "MusicMath_clamp (Math_floor v) (Fin (of_int a)) (Fin (of_int b)) =
          Fin (of_int (min (max \<lfloor>r\<rfloor> a) b))"
    using assms(2) Fin by (auto simp: MusicMath_clamp_def min_def max_def)
  moreover have "a \<le> min (max \<lfloor>r\<rfloor> a) b" "min (max \<lfloor>r\<rfloor> a) b \<le> b"
    using assms(2) by auto
  ultimately show ?thesis by blast
next
  case PInf
  then show ?thesis using assms(2) by (auto simp: MusicMath_clamp_def intro!: exI[of _ b])
next
  case NInf
  then show ?thesis using assms(2) by (auto simp: MusicMath_clamp_def intro!: exI[of _ a])
next
  case NaN
  then show ?thesis using assms(1) by simp
qed

lemma xyToNote_in_window:
  assumes "minNote st = Fin (of_int a)" "maxNote st = Fin (of_int b)" "a \<le> b"
  shows "\<exists>n. xyToNote st win x = Fin (of_int n) \<and> a \<le> n \<and> n \<le> b"
  unfolding xyToNote_def Let_def assms(1,2)
  by (rule clamp_int_window) (simp_all add: map_never_NaN assms(3))

lemma yToVelocity_number:
  assumes "innerHeight win = Fin h" "h \<noteq> 0"
  shows "yToVelocity win (Some (Fin y)) = Fin (min (max (1 - y / h) 0.2) 1)"
proof -
  have "js_sub (Fin 1) (js_div (ToNumber (Some (Fin y))) (innerHeight win)) = Fin (1 - y / h)"
    using assms by (simp add: js_sub_def)
  then have "yToVelocity win (Some (Fin y)) = Fin (min (max (1 - y / h) 0.2) 1.0)"
    unfolding yToVelocity_def Let_def by (simp only: clamp_Fin)
  also have "(1.0 :: real) = 1" by simp
  finally show ?thesis .
qed

lemma MouseInput_new_window:
  "MouseInput_new (no_config\<lparr>cfg_minNote := Some (Fin 48), cfg_maxNote := Some (Fin 84)\<rparr>) =
     \<lparr>mode = ''trigger'', container = body, minNote = Fin 48, maxNote = Fin 84, isPressed = False,
      ms_listeners = [(body, ''click'', TriggerClick), (body, ''touchstart'', TriggerClick)]\<rparr>"
  by (simp add: MouseInput_new_def no_config_def mouse_setupListeners_def setupTriggerMode_def)

text \<open>
  A click at half the viewport width, with the window from 48 to 84, emits one note-on
  with note 66 and nothing else.
\<close>

lemma trigger_click_midpoint:
  assumes "minNote st = Fin 48" "maxNote st = Fin 84" "innerWidth win = Fin w" "0 < w"
      and "clientX e = Some (Fin (w / 2))" "eventY e = Inr y"
  shows "handleClick st win e =
           (st, [(''note-on'', [(''note'', Num (Fin 66)), (''velocity'', Num (yToVelocity win y)),
                                (''x'', Num (Fin (w / 2))), (''y'', val_of y)])], None)"
proof -
  from assms have x: "eventX e = Inr (Some (Fin (w / 2)))"
    by (simp add: eventX_def coordinate_def)
  from assms have "xyToNote st win (Some (Fin (w / 2))) = Fin 66"
    by (simp add: xyToNote_def MusicMath_map_def MusicMath_clamp_def js_sub_def Let_def)
  with x assms(6) show ?thesis
    by (simp add: handleClick_def Let_def)
qed

text \<open>
  When the event yields a number for \<open>y\<close>, the velocity of the note-on is the inverted
  vertical fraction clamped to the interval from 0.2 to 1.
\<close>

lemma trigger_click_velocity:
  assumes "innerHeight win = Fin h" "h \<noteq> 0" "eventX e = Inr x" "eventY e = Inr (Some (Fin y))"
  shows "handleClick st win e =
           (st, [(''note-on'', [(''note'', Num (xyToNote st win x)),
                                (''velocity'', Num (Fin (min (max (1 - y / h) 0.2) 1))),
                                (''x'', val_of x), (''y'', Num (Fin y))])], None)"
  using assms by (simp add: handleClick_def Let_def yToVelocity_number)

text \<open>
  C7. The claim: in trigger mode with the window from 48 to 84, a click at half the
  viewport width emits one note-on with note 66, and for every click the velocity is
  the inverted vertical fraction clamped to the interval from 0.2 to 1, with no
  note-off. A mouse click on the top row of the viewport has \<open>clientY = 0\<close>, which
  \<open>e.clientY || (e.touches && ...)\<close> takes for a missing coordinate: \<open>y\<close> is \<open>undefined\<close>
  and the velocity of the note-on is \<open>NaN\<close>, where the claim gives 1.
\<close>

theorem trigger_click_top_row_velocity_NaN:
  "handleClick (MouseInput_new (no_config\<lparr>cfg_minNote := Some (Fin 48), cfg_maxNote := Some (Fin 84)\<rparr>))
     \<lparr>innerWidth = Fin 1000, innerHeight = Fin 800\<rparr>
     \<lparr>clientX = Some (Fin 500), clientY = Some (Fin 0), touches = None\<rparr> =
     (MouseInput_new (no_config\<lparr>cfg_minNote := Some (Fin 48), cfg_maxNote := Some (Fin 84)\<rparr>),
      [(''note-on'', [(''note'', Num (Fin 66)), (''velocity'', Num NaN),
                      (''x'', Num (Fin 500)), (''y'', Undefined)])], None)"
  by (simp add: MouseInput_new_window handleClick_def eventX_def eventY_def coordinate_def
        xyToNote_def yToVelocity_def MusicMath_map_def MusicMath_clamp_def js_sub_def Let_def)

section \<open>The range invariant, adapter by adapter\<close>

lemma layouts_cases:
  "map_of layouts lay = Some table \<Longrightarrow> table = piano \<or> table = drumpad \<or> table = chromatic"
  by (auto simp: layouts_def split: if_splits)

lemma piano_bounds: "(k, n) \<in> set piano \<Longrightarrow> 0 \<le> n \<and> n \<le> 127"
  by (auto simp: piano_def)

lemma drumpad_bounds: "(k, n) \<in> set drumpad \<Longrightarrow> 0 \<le> n \<and> n \<le> 127"
  by (auto simp: drumpad_def)

lemma chromatic_bounds: "(k, n) \<in> set chromatic \<Longrightarrow> 0 \<le> n \<and> n \<le> 127"
  by (auto simp: chromatic_def)

lemma table_bounds:
  assumes "map_of layouts lay = Some table" "map_of table k = Some n"
  shows "0 \<le> n \<and> n \<le> 127"
proof -
  from assms(2) have "(k, n) \<in> set table" by (rule map_of_SomeD)
  with layouts_cases [OF assms(1)] show ?thesis
    using piano_bounds drumpad_bounds chromatic_bounds by blast
qed

lemma range_note_on_key:
  "range_invariant (''note-on'', [(''note'', int_num n), (''velocity'', Num (Fin 0.7)), (''key'', Str k)])
     = (0 \<le> n \<and> n \<le> 127)"
  by (auto simp: range_invariant_def field_def int_num_def)

lemma range_note_off_key:
  "range_invariant (''note-off'', [(''note'', int_num n), (''key'', Str k)]) = (0 \<le> n \<and> n \<le> 127)"
  by (auto simp: range_invariant_def field_def int_num_def)

lemma range_trigger_key:
  "range_invariant (''trigger'', [(''index'', v), (''velocity'', Num (Fin 0.7)), (''key'', Str k)])"
  by (simp add: range_invariant_def field_def)

lemma table_entry_plain:
  assumes "map_of layouts lay = Some table" "inherited k = Undefined"
  shows "table_entry table k = Undefined \<or>
         (\<exists>n. table_entry table k = int_num n \<and> 0 \<le> n \<and> n \<le> 127)"
proof (cases "map_of table k")
  case None
  with assms(2) show ?thesis by (simp add: table_entry_def)
next
  case (Some n)
  with table_bounds [OF assms(1) Some] show ?thesis by (auto simp: table_entry_def)
qed

lemma releaseKeys_range:
  assumes "map_of layouts lay = Some table"
  shows "\<forall>k\<in>set ks. inherited k = Undefined \<Longrightarrow> e \<in> set (fst (releaseKeys lay ks)) \<Longrightarrow>
         range_invariant e"
proof (induction ks)
  case Nil
  then show ?case by simp
next
  case (Cons k ks)
  from Cons.prems(1) have "inherited k = Undefined" by simp
  from table_entry_plain [OF assms this] Cons show ?case
    by (auto simp: layout_entry_known [OF assms] Let_def range_note_off_key split: if_splits)
qed

lemma handleKeyDown_range:
  assumes "map_of layouts (layout st) = Some table" "inherited (toLowerCase (key ke)) = Undefined"
      and "e \<in> set (fst (snd (handleKeyDown st ke)))"
  shows "range_invariant e"
  using table_entry_plain [OF assms(1,2)] assms(3)
  by (auto simp: handleKeyDown_def Let_def layout_entry_known [OF assms(1)]
                 range_note_on_key range_trigger_key split: if_splits)

lemma handleKeyUp_range:
  assumes "map_of layouts (layout st) = Some table" "inherited (toLowerCase (key ke)) = Undefined"
      and "e \<in> set (fst (snd (handleKeyUp st ke)))"
  shows "range_invariant e"
  using table_entry_plain [OF assms(1,2)] assms(3)
  by (auto simp: handleKeyUp_def Let_def layout_entry_known [OF assms(1)]
                 range_note_off_key split: if_splits)

lemma handleBlur_range:
  assumes "map_of layouts (layout st) = Some table" "\<forall>k\<in>set (keysPressed st). inherited k = Undefined"
      and "e \<in> set (fst (snd (handleBlur st)))"
  shows "range_invariant e"
proof -
  have "fst (snd (handleBlur st)) = fst (releaseKeys (layout st) (keysPressed st))"
    by (auto simp: handleBlur_def split: prod.splits option.splits)
  with assms(3) releaseKeys_range [OF assms(1,2)] show ?thesis by simp
qed

lemma nat_is_note: "k \<le> 127 \<Longrightarrow> is_note (Num (Fin (real k)))"
  by simp

lemma nat_in_unit: "k \<le> 127 \<Longrightarrow> in_unit (Num (Fin (real k / 127)))"
  by simp

lemma byte_is_note: "unat (n :: 8 word) \<le> 127 \<Longrightarrow> is_note (word_num n)"
  unfolding word_num_def by (rule nat_is_note)

lemma byte_in_unit: "unat (v :: 8 word) \<le> 127 \<Longrightarrow> in_unit (Num (Fin (real (unat v) / 127)))"
  by (rule nat_in_unit)

lemma range_midi_note_on:
  "is_note nv \<Longrightarrow> in_unit vv \<Longrightarrow>
   range_invariant (''note-on'', [(''note'', nv), (''velocity'', vv), (''channel'', c)])"
  by (simp add: range_invariant_def field_def)

lemma range_midi_note_off:
  "is_note nv \<Longrightarrow> range_invariant (''note-off'', [(''note'', nv), (''channel'', c)])"
  by (simp add: range_invariant_def field_def)

lemma range_midi_control:
  "range_invariant (''control-change'', [(''control'', nv), (''value'', vv), (''channel'', c)])"
  by (simp add: range_invariant_def field_def)

lemma midi_range:
  assumes "unat n \<le> 127" "unat v \<le> 127" "e \<in> set (handleMidiMessage [s, n, v])"
  shows "range_invariant e"
proof -
  have "e \<in> {(''note-on'', [(''note'', word_num n), (''velocity'', Num (Fin (real (unat v) / 127))),
                           (''channel'', word_num (s AND 0x0f))]),
              (''note-off'', [(''note'', word_num n), (''channel'', word_num (s AND 0x0f))]),
              (''control-change'', [(''control'', word_num n),
                                    (''value'', Num (Fin (real (unat v) / 127))),
                                    (''channel'', word_num (s AND 0x0f))])}"
    using assms(3) unfolding handleMidiMessage_three by (simp split: if_splits)
  then show ?thesis
    using range_midi_note_on [OF byte_is_note [OF assms(1)] byte_in_unit [OF assms(2)]]
          range_midi_note_off [OF byte_is_note [OF assms(1)]]
          range_midi_control
    by blast
qed

lemma range_pointer_note_on:
  "is_note nv \<Longrightarrow> in_unit vv \<Longrightarrow>
   range_invariant (''note-on'', [(''note'', nv), (''velocity'', vv), (''x'', xv), (''y'', yv)])"
  by (simp add: range_invariant_def field_def)

lemma range_continuous:
  "in_unit xv \<Longrightarrow> in_unit yv \<Longrightarrow> in_unit pv \<Longrightarrow>
   range_invariant (''continuous'', [(''x'', xv), (''y'', yv), (''pressure'', pv)])"
  by (simp add: range_invariant_def field_def)

lemma range_empty_note_off: "range_invariant (''note-off'', [])"
  by (simp add: range_invariant_def field_def)

lemma is_note_of_int: "0 \<le> n \<Longrightarrow> n \<le> 127 \<Longrightarrow> is_note (Num (Fin (of_int n)))"
  by simp

lemma xyToNote_is_note:
  assumes "minNote st = Fin (of_int a)" "maxNote st = Fin (of_int b)" "0 \<le> a" "a \<le> b" "b \<le> 127"
  shows "is_note (Num (xyToNote st win x))"
proof -
  from xyToNote_in_window [OF assms(1,2,4)]
  obtain n where n: "xyToNote st win x = Fin (of_int n)" "a \<le> n" "n \<le> b" by blast
  from n(2,3) assms(3,5) have "0 \<le> n" "n \<le> 127" by auto
  then have "is_note (Num (Fin (of_int n)))" by (rule is_note_of_int)
  with n(1) show ?thesis by simp
qed

lemma velocity_in_unit: "in_unit (Num (Fin (min (max d 0.2) 1)))"
  by (simp add: min_def max_def)

lemma fraction_in_unit:
  "innerWidth win = Fin w \<Longrightarrow> 0 < w \<Longrightarrow> 0 \<le> x \<Longrightarrow> x \<le> w \<Longrightarrow>
   in_unit (Num (js_div (ToNumber (Some (Fin x))) (innerWidth win)))"
  by simp

lemma fraction_in_unit_y:
  "innerHeight win = Fin h \<Longrightarrow> 0 < h \<Longrightarrow> 0 \<le> y \<Longrightarrow> y \<le> h \<Longrightarrow>
   in_unit (Num (js_div (ToNumber (Some (Fin y))) (innerHeight win)))"
  by simp

lemma handleClick_range:
  assumes "minNote st = Fin (of_int a)" "maxNote st = Fin (of_int b)" "0 \<le> a" "a \<le> b" "b \<le> 127"
      and "innerHeight win = Fin h" "0 < h"
      and "eventX pe = Inr x" "eventY pe = Inr (Some (Fin y))"
      and "e \<in> set (fst (snd (handleClick st win pe)))"
  shows "range_invariant e"
proof -
  from assms(7) have "h \<noteq> 0" by simp
  from trigger_click_velocity [OF assms(6) this assms(8,9)] assms(10)
  have "e = (''note-on'', [(''note'', Num (xyToNote st win x)),
                           (''velocity'', Num (Fin (min (max (1 - y / h) 0.2) 1))),
                           (''x'', val_of x), (''y'', Num (Fin y))])"
    by simp
  then show ?thesis
    using range_pointer_note_on [OF xyToNote_is_note [OF assms(1-5)] velocity_in_unit] by simp
qed

lemma continuous_handleDown_range:
  assumes "minNote st = Fin (of_int a)" "maxNote st = Fin (of_int b)" "0 \<le> a" "a \<le> b" "b \<le> 127"
      and "e \<in> set (fst (snd (continuous_handleDown st win pe)))"
  shows "range_invariant e"
proof -
  let ?st = "st\<lparr>isPressed := True\<rparr>"
  have w: "minNote ?st = Fin (of_int a)" "maxNote ?st = Fin (of_int b)"
    using assms(1,2) by simp_all
  have v: "in_unit (Num (Fin 0.7))" by simp
  from assms(6) obtain x y where
    "e = (''note-on'', [(''note'', Num (xyToNote ?st win x)), (''velocity'', Num (Fin 0.7)),
                        (''x'', val_of x), (''y'', val_of y)])"
    by (auto simp: continuous_handleDown_def Let_def split: sum.splits)
  then show ?thesis
    using range_pointer_note_on [OF xyToNote_is_note [OF w assms(3-5)] v] by simp
qed

lemma move_range:
  assumes "innerWidth win = Fin w" "0 < w" "innerHeight win = Fin h" "0 < h"
      and "eventX pe = Inr (Some (Fin x))" "eventY pe = Inr (Some (Fin y))"
      and "0 \<le> x" "x \<le> w" "0 \<le> y" "y \<le> h"
  shows "e \<in> set (fst (snd (continuous_handleMove st win pe))) \<Longrightarrow> range_invariant e"
    and "e \<in> set (fst (snd (xypad_handleMove st win pe))) \<Longrightarrow> range_invariant e"
proof -
  note fx = fraction_in_unit [OF assms(1,2,7,8)]
  note fy = fraction_in_unit_y [OF assms(3,4,9,10)]
  have p: "in_unit (Num (Fin 0.7))" "in_unit (Num (Fin 1.0))" "in_unit (Num (Fin 0.5))" by simp_all
  show "e \<in> set (fst (snd (continuous_handleMove st win pe))) \<Longrightarrow> range_invariant e"
    using range_continuous [OF fx fy p(1)]
    by (simp add: continuous_handleMove_def assms(5,6) split: if_splits)
  show "e \<in> set (fst (snd (xypad_handleMove st win pe))) \<Longrightarrow> range_invariant e"
    using range_continuous [OF fx fy p(2)] range_continuous [OF fx fy p(3)]
    by (simp add: xypad_handleMove_def assms(5,6) split: if_splits)
qed

lemma event_mouse:
  "clientX pe = Some (Fin x) \<Longrightarrow> x \<noteq> 0 \<Longrightarrow> eventX pe = Inr (Some (Fin x))"
  "clientY pe = Some (Fin y) \<Longrightarrow> y \<noteq> 0 \<Longrightarrow> eventY pe = Inr (Some (Fin y))"
  by (simp_all add: eventX_def eventY_def coordinate_def)

lemma event_touch:
  "clientX pe = None \<Longrightarrow> touches pe = Some ((tx, ty) # ts) \<Longrightarrow> eventX pe = Inr (Some tx)"
  "clientY pe = None \<Longrightarrow> touches pe = Some ((tx, ty) # ts) \<Longrightarrow> eventY pe = Inr (Some ty)"
  by (simp_all add: eventX_def eventY_def coordinate_def)

lemma handleClick_range_any_x:
  assumes "minNote st = Fin (of_int a)" "maxNote st = Fin (of_int b)" "0 \<le> a" "a \<le> b" "b \<le> 127"
      and "innerHeight win = Fin h" "0 < h"
      and "eventY pe = Inr (Some (Fin y))"
      and "e \<in> set (fst (snd (handleClick st win pe)))"
  shows "range_invariant e"
proof (cases "eventX pe")
  case (Inl err)
  with assms(9) show ?thesis by (simp add: handleClick_def)
next
  case (Inr x)
  from handleClick_range [OF assms(1-7) Inr assms(8,9)] show ?thesis .
qed

lemma nth_opt_in_set: "nth_opt xs i = Some x \<Longrightarrow> x \<in> set xs"
  by (induction xs i rule: nth_opt.induct) auto

lemma floor_in_window:
  assumes "0 \<le> t" "t \<le> 1" "a \<le> b"
  shows "a \<le> \<lfloor>t * (real_of_int b - real_of_int a) + real_of_int a\<rfloor>"
    and "\<lfloor>t * (real_of_int b - real_of_int a) + real_of_int a\<rfloor> \<le> b"
proof -
  let ?d = "real_of_int b - real_of_int a"
  from assms(3) have d: "0 \<le> ?d" by simp
  with assms(1) have lo: "0 \<le> t * ?d" by (rule mult_nonneg_nonneg)
  from assms(2) d have "t * ?d \<le> 1 * ?d" by (rule mult_right_mono)
  then have hi: "t * ?d \<le> ?d" by simp
  from lo have "real_of_int a \<le> t * ?d + real_of_int a" by simp
  then show "a \<le> \<lfloor>t * ?d + real_of_int a\<rfloor>" by (simp add: le_floor_iff)
  from hi have "t * ?d + real_of_int a \<le> real_of_int b" by simp
  then have "\<lfloor>t * ?d + real_of_int a\<rfloor> \<le> \<lfloor>real_of_int b\<rfloor>" by (rule floor_mono)
  then show "\<lfloor>t * ?d + real_of_int a\<rfloor> \<le> b" by simp
qed

lemma range_finger_note_on:
  "is_note nv \<Longrightarrow> in_unit vv \<Longrightarrow>
   range_invariant (''note-on'', [(''note'', nv), (''velocity'', vv), (''x'', xv), (''y'', yv),
                                  (''fingerIndex'', fv)])"
  by (simp add: range_invariant_def field_def)

lemma triggerNote_range:
  assumes "mp_minNote st = Fin (of_int a)" "mp_maxNote st = Fin (of_int b)"
      and "0 \<le> a" "a \<le> b" "b \<le> 127" "0 \<le> x" "x \<le> 1"
  shows "range_invariant (triggerNote st win (js_sub (Fin 1) (Fin x)) yv i)"
proof -
  let ?n = "\<lfloor>(1 - x) * (real_of_int b - real_of_int a) + real_of_int a\<rfloor>"
  have m: "Math_floor (MusicMath_map (js_sub (Fin 1) (Fin x)) (Fin 0) (Fin 1)
                         (mp_minNote st) (mp_maxNote st)) = Fin (of_int ?n)"
    by (simp add: assms(1,2) MusicMath_map_def js_sub_def)
  from assms(6,7) have t: "0 \<le> 1 - x" "1 - x \<le> 1" by simp_all
  from floor_in_window [OF t assms(4)] assms(3,5) have "0 \<le> ?n" "?n \<le> 127" by linarith+
  then have "is_note (Num (Fin (of_int ?n)))" by (rule is_note_of_int)
  moreover have "in_unit (Num (Fin 0.7))" by simp
  ultimately show ?thesis
    unfolding triggerNote_def Let_def m by (rule range_finger_note_on)
qed

lemma checkLineCrossing_window:
  "mp_minNote (fst (checkLineCrossing st i y)) = mp_minNote st"
  "mp_maxNote (fst (checkLineCrossing st i y)) = mp_maxNote st"
  by (simp_all add: checkLineCrossing_def Let_def split: option.splits)

lemma processTips_range:
  assumes "0 \<le> a" "a \<le> b" "b \<le> 127" "list_all in_frame hand"
  shows "mp_minNote st = Fin (of_int a) \<Longrightarrow> mp_maxNote st = Fin (of_int b) \<Longrightarrow>
         e \<in> set (snd (processTips st win hand tips)) \<Longrightarrow> range_invariant e"
proof (induction tips arbitrary: st)
  case Nil
  then show ?case by simp
next
  case (Cons i tips)
  show ?case
  proof (cases "nth_opt hand i")
    case None
    with Cons show ?thesis by simp
  next
    case (Some tip)
    then have "tip \<in> set hand" by (rule nth_opt_in_set)
    with assms(4) have "in_frame tip" by (simp add: list_all_iff)
    then obtain x y where tip: "tip = (Fin x, y)" "0 \<le> x" "x \<le> 1"
      by (cases tip rule: in_frame.cases) auto
    let ?st = "fst (checkLineCrossing st i y)"
    have w: "mp_minNote ?st = Fin (of_int a)" "mp_maxNote ?st = Fin (of_int b)"
      using Cons.prems(1,2) by (simp_all add: checkLineCrossing_window)
    from Cons.prems(3) Some tip(1)
    have "e = triggerNote ?st win (js_sub (Fin 1) (Fin x)) y i \<or>
          e \<in> set (snd (processTips ?st win hand tips))"
      by (auto simp: Let_def split: prod.splits if_splits)
    then show ?thesis
    proof
      assume "e = triggerNote ?st win (js_sub (Fin 1) (Fin x)) y i"
      then show ?thesis
        using triggerNote_range [OF w assms(1-3) tip(2,3)] by simp
    next
      assume "e \<in> set (snd (processTips ?st win hand tips))"
      with w show ?thesis by (rule Cons.IH)
    qed
  qed
qed

lemma MouseInput_new_continuous:
  "MouseInput_new (no_config\<lparr>cfg_mode := Some ''continuous''\<rparr>) =
     \<lparr>mode = ''continuous'', container = body, minNote = Fin 48, maxNote = Fin 84,
      isPressed = False, ms_listeners = setupContinuousMode body\<rparr>"
  by (simp add: MouseInput_new_def no_config_def mouse_setupListeners_def)

text \<open>
  The hand-tracking adapter does not clamp the note: with the window from 48 to 127 and
  a fingertip just outside the camera frame the note is 130.
\<close>

lemma finger_outside_frame_note_unclamped:
  "triggerNote ((MediaPipeInput_new (no_config\<lparr>cfg_maxNote := Some (Fin 127)\<rparr>)))
     \<lparr>innerWidth = Fin 1000, innerHeight = Fin 800\<rparr> (js_sub (Fin 1) (Fin (- 0.05))) (Fin 0.6) 8 =
     (''note-on'', [(''note'', Num (Fin 130)), (''velocity'', Num (Fin 0.7)),
                    (''x'', Num (Fin 1050)), (''y'', Num (Fin 480)),
                    (''fingerIndex'', Num (Fin 8))])"
  by (simp add: triggerNote_def MediaPipeInput_new_def no_config_def MusicMath_map_def js_sub_def)

text \<open>
  C3. The claim: every event an adapter emits has its note an integer from 0 to 127 and
  its velocity, pressure and normalised coordinates from 0 to 1, the adapter clamping
  every raw input. The move handlers of the pointer adapter divide the coordinates by
  the size of the viewport and clamp nothing: in continuous mode a touch that started
  on the page and moved up past the top edge of the viewport has a negative \<open>clientY\<close>,
  and the \<open>continuous\<close> event carries \<open>y = -0.05\<close>.
\<close>

theorem continuous_touch_above_viewport_unclamped:
  "fst (snd (continuous_handleMove
        (fst (continuous_handleDown (MouseInput_new (no_config\<lparr>cfg_mode := Some ''continuous''\<rparr>))
                \<lparr>innerWidth = Fin 1000, innerHeight = Fin 800\<rparr>
                \<lparr>clientX = None, clientY = None, touches = Some [(Fin 200, Fin 300)]\<rparr>))
        \<lparr>innerWidth = Fin 1000, innerHeight = Fin 800\<rparr>
        \<lparr>clientX = None, clientY = None, touches = Some [(Fin 200, Fin (- 40))]\<rparr>)) =
     [(''continuous'', [(''x'', Num (Fin 0.2)), (''y'', Num (Fin (- 0.05))),
                        (''pressure'', Num (Fin 0.7))])] \<and>
   \<not> range_invariant (''continuous'', [(''x'', Num (Fin 0.2)), (''y'', Num (Fin (- 0.05))),
                                       (''pressure'', Num (Fin 0.7))])"
  by (simp add: MouseInput_new_continuous continuous_handleDown_def continuous_handleMove_def
        eventX_def eventY_def coordinate_def Let_def range_invariant_def field_def)

text \<open>
  C3, amended. The events satisfy the range invariant under these conditions on the
  raw input. Keyboard: the layout is one of the three, and no key read by the handler
  (the key of the event, lower-cased, for keydown and keyup; the held keys for blur)
  names a member of \<open>Object.prototype\<close>. MIDI: a three-byte message whose two data bytes
  are at most 127. Pointer, with a note window whose bounds are integers and lie within
  0 to 127: the note-on of a press in continuous mode, at every pointer position; the
  note-on of a click, in a viewport of positive height, at every pointer position for
  which the handler reads a number for \<open>y\<close>: a mouse event with \<open>clientY\<close> other than 0,
  or a touch event. Pointer, the \<open>continuous\<close> events of both move handlers, in a
  viewport of positive width and height: a mouse event with
  \<open>0 < clientX \<le> innerWidth\<close> and \<open>0 < clientY \<le> innerHeight\<close>, or a touch event whose
  first touch has \<open>0 \<le> clientX \<le> innerWidth\<close> and \<open>0 \<le> clientY \<le> innerHeight\<close>. The
  release handler of continuous mode emits a note-off without fields, and the press and
  release handlers of the pad emit nothing. Hand tracking: every landmark of the hand
  has \<open>x\<close> inside the camera frame, and the window is as for the pointer.
\<close>

theorem range_invariant_for_in_range_input:
  "(map_of layouts (layout kst) = Some table \<and> inherited (toLowerCase (key ke)) = Undefined \<and>
    e \<in> set (fst (snd (handleKeyDown kst ke))) \<longrightarrow> range_invariant e) \<and>
   (map_of layouts (layout kst) = Some table \<and> inherited (toLowerCase (key ke)) = Undefined \<and>
    e \<in> set (fst (snd (handleKeyUp kst ke))) \<longrightarrow> range_invariant e) \<and>
   (map_of layouts (layout kst) = Some table \<and>
    list_all (\<lambda>k. inherited k = Undefined) (keysPressed kst) \<and>
    e \<in> set (fst (snd (handleBlur kst))) \<longrightarrow> range_invariant e) \<and>
   (unat n \<le> 127 \<and> unat v \<le> 127 \<and> e \<in> set (handleMidiMessage [s, n, v]) \<longrightarrow>
      range_invariant e) \<and>
   (minNote mst = Fin (of_int a) \<and> maxNote mst = Fin (of_int b) \<and> 0 \<le> a \<and> a \<le> b \<and> b \<le> 127 \<and>
    e \<in> set (fst (snd (continuous_handleDown mst win pe))) \<longrightarrow> range_invariant e) \<and>
   (minNote mst = Fin (of_int a) \<and> maxNote mst = Fin (of_int b) \<and> 0 \<le> a \<and> a \<le> b \<and> b \<le> 127 \<and>
    innerHeight win = Fin h \<and> 0 < h \<and>
    (clientY pe = Some (Fin y) \<and> y \<noteq> 0 \<or>
     clientY pe = None \<and> touches pe = Some ((tx, Fin y) # ts)) \<and>
    e \<in> set (fst (snd (handleClick mst win pe))) \<longrightarrow> range_invariant e) \<and>
   (innerWidth win = Fin w \<and> 0 < w \<and> innerHeight win = Fin h \<and> 0 < h \<and>
    (clientX pe = Some (Fin x) \<and> clientY pe = Some (Fin y) \<and> 0 < x \<and> x \<le> w \<and> 0 < y \<and> y \<le> h \<or>
     clientX pe = None \<and> clientY pe = None \<and> touches pe = Some ((Fin x, Fin y) # ts) \<and>
     0 \<le> x \<and> x \<le> w \<and> 0 \<le> y \<and> y \<le> h) \<and>
    (e \<in> set (fst (snd (continuous_handleMove mst win pe))) \<or>
     e \<in> set (fst (snd (xypad_handleMove mst win pe)))) \<longrightarrow> range_invariant e) \<and>
   (e \<in> set (fst (snd (continuous_handleUp mst))) \<longrightarrow> range_invariant e) \<and>
   fst (snd (xypad_handleDown mst)) = [] \<and> fst (snd (xypad_handleUp mst)) = [] \<and>
   (mp_minNote hst = Fin (of_int a) \<and> mp_maxNote hst = Fin (of_int b) \<and>
    0 \<le> a \<and> a \<le> b \<and> b \<le> 127 \<and> list_all in_frame hand \<and>
    e \<in> set (snd (processHand hst win hand)) \<longrightarrow>
      range_invariant e)"
proof (intro conjI impI)
  assume "map_of layouts (layout kst) = Some table \<and> inherited (toLowerCase (key ke)) = Undefined \<and>
    e \<in> set (fst (snd (handleKeyDown kst ke)))"
  then show "range_invariant e"
    using handleKeyDown_range by blast
next
  assume "map_of layouts (layout kst) = Some table \<and> inherited (toLowerCase (key ke)) = Undefined \<and>
    e \<in> set (fst (snd (handleKeyUp kst ke)))"
  then show "range_invariant e"
    using handleKeyUp_range by blast
next
  assume "map_of layouts (layout kst) = Some table \<and>
    list_all (\<lambda>k. inherited k = Undefined) (keysPressed kst) \<and>
    e \<in> set (fst (snd (handleBlur kst)))"
  then show "range_invariant e"
    using handleBlur_range [of kst table e] by (simp add: list_all_iff)
next
  assume "unat n \<le> 127 \<and> unat v \<le> 127 \<and> e \<in> set (handleMidiMessage [s, n, v])"
  then show "range_invariant e"
    using midi_range by blast
next
  assume "minNote mst = Fin (of_int a) \<and> maxNote mst = Fin (of_int b) \<and> 0 \<le> a \<and> a \<le> b \<and> b \<le> 127 \<and>
    e \<in> set (fst (snd (continuous_handleDown mst win pe)))"
  then show "range_invariant e"
    using continuous_handleDown_range by blast
next
  assume h: "minNote mst = Fin (of_int a) \<and> maxNote mst = Fin (of_int b) \<and> 0 \<le> a \<and> a \<le> b \<and> b \<le> 127 \<and>
    innerHeight win = Fin h \<and> 0 < h \<and>
    (clientY pe = Some (Fin y) \<and> y \<noteq> 0 \<or>
     clientY pe = None \<and> touches pe = Some ((tx, Fin y) # ts)) \<and>
    e \<in> set (fst (snd (handleClick mst win pe)))"
  then have "eventY pe = Inr (Some (Fin y))"
    using event_mouse(2) event_touch(2) by blast
  with h show "range_invariant e"
    using handleClick_range_any_x [of mst a b win h pe y e] by blast
next
  assume h: "innerWidth win = Fin w \<and> 0 < w \<and> innerHeight win = Fin h \<and> 0 < h \<and>
    (clientX pe = Some (Fin x) \<and> clientY pe = Some (Fin y) \<and> 0 < x \<and> x \<le> w \<and> 0 < y \<and> y \<le> h \<or>
     clientX pe = None \<and> clientY pe = None \<and> touches pe = Some ((Fin x, Fin y) # ts) \<and>
     0 \<le> x \<and> x \<le> w \<and> 0 \<le> y \<and> y \<le> h) \<and>
    (e \<in> set (fst (snd (continuous_handleMove mst win pe))) \<or>
     e \<in> set (fst (snd (xypad_handleMove mst win pe))))"
  then have xy: "eventX pe = Inr (Some (Fin x))" "eventY pe = Inr (Some (Fin y))"
    using event_mouse(1) [of pe x] event_mouse(2) [of pe y]
          event_touch [of pe "Fin x" "Fin y" ts] by auto
  from h have b: "0 \<le> x" "x \<le> w" "0 \<le> y" "y \<le> h" by auto
  from h have v: "innerWidth win = Fin w" "0 < w" "innerHeight win = Fin h" "0 < h" by auto
  from h move_range [OF v xy b] show "range_invariant e" by blast
next
  assume "e \<in> set (fst (snd (continuous_handleUp mst)))"
  then show "range_invariant e"
    by (simp add: continuous_handleUp_def range_empty_note_off)
next
  show "fst (snd (xypad_handleDown mst)) = []" by (simp add: xypad_handleDown_def)
  show "fst (snd (xypad_handleUp mst)) = []" by (simp add: xypad_handleUp_def)
next
  assume "mp_minNote hst = Fin (of_int a) \<and> mp_maxNote hst = Fin (of_int b) \<and>
    0 \<le> a \<and> a \<le> b \<and> b \<le> 127 \<and> list_all in_frame hand \<and>
    e \<in> set (snd (processHand hst win hand))"
  then show "range_invariant e"
    using processTips_range [of a b hand hst e win "fingerTips hst"]
    by (simp add: processHand_def)
qed

lemma inherited_q: "inherited ''q'' = Undefined"
  by (simp add: inherited_def Object_prototype_methods_def)

theorem range_invariant_for_in_range_input_witness:
  "range_invariant (''note-on'', [(''note'', Num (Fin 60)), (''velocity'', Num (Fin 0.7)),
                                  (''key'', Str ''q'')]) \<and>
   range_invariant (''note-off'', [(''note'', Num (Fin 60)), (''key'', Str ''q'')]) \<and>
   range_invariant (''note-on'', [(''note'', Num (Fin 60)), (''velocity'', Num (Fin (100 / 127))),
                                  (''channel'', Num (Fin 0))]) \<and>
   range_invariant (''note-on'', [(''note'', Num (Fin 48)), (''velocity'', Num (Fin 0.7)),
                                  (''x'', Undefined), (''y'', Undefined)]) \<and>
   range_invariant (''note-on'', [(''note'', Num (Fin 66)), (''velocity'', Num (Fin 0.5)),
                                  (''x'', Num (Fin 500)), (''y'', Num (Fin 400))]) \<and>
   range_invariant (''continuous'', [(''x'', Num (Fin 0)), (''y'', Num (Fin 1)),
                                     (''pressure'', Num (Fin 0.7))]) \<and>
   range_invariant (''note-off'', []) \<and>
   range_invariant (''note-on'', [(''note'', Num (Fin 75)), (''velocity'', Num (Fin 0.7)),
                                  (''x'', Num (Fin 750)), (''y'', Num (Fin 480)),
                                  (''fingerIndex'', Num (Fin 8))])"
proof (intro conjI)
  show "range_invariant (''note-on'', [(''note'', Num (Fin 60)), (''velocity'', Num (Fin 0.7)),
                                       (''key'', Str ''q'')])"
    using range_invariant_for_in_range_input
            [where kst = "KeyboardInput_new (Some ''piano'')" and ke = "plain_key ''q''"
               and table = piano
               and e = "(''note-on'', [(''note'', Num (Fin 60)), (''velocity'', Num (Fin 0.7)),
                                       (''key'', Str ''q'')])"]
    by (simp add: handleKeyDown_def KeyboardInput_new_def plain_key_def toLowerCase_q inherited_q
          layouts_piano layout_entry_known [OF layouts_piano] table_entry_piano_q Let_def)
  show "range_invariant (''note-off'', [(''note'', Num (Fin 60)), (''key'', Str ''q'')])"
    using range_invariant_for_in_range_input
            [where kst = "(KeyboardInput_new (Some ''piano''))\<lparr>keysPressed := [''q'']\<rparr>"
               and ke = "plain_key ''q''" and table = piano
               and e = "(''note-off'', [(''note'', Num (Fin 60)), (''key'', Str ''q'')])"]
    by (simp add: handleKeyUp_def handleBlur_def KeyboardInput_new_def plain_key_def toLowerCase_q
          inherited_q layouts_piano layout_entry_known [OF layouts_piano] table_entry_piano_q
          Let_def)
  show "range_invariant (''note-on'', [(''note'', Num (Fin 60)), (''velocity'', Num (Fin (100 / 127))),
                                       (''channel'', Num (Fin 0))])"
    using range_invariant_for_in_range_input
            [where s = "0x90" and n = 60 and v = 100
               and e = "(''note-on'', [(''note'', Num (Fin 60)), (''velocity'', Num (Fin (100 / 127))),
                                       (''channel'', Num (Fin 0))])"]
    by (simp add: handleMidiMessage_three word_num_def)
  show "range_invariant (''note-on'', [(''note'', Num (Fin 48)), (''velocity'', Num (Fin 0.7)),
                                       (''x'', Undefined), (''y'', Undefined)])"
    using range_invariant_for_in_range_input
            [where mst = "MouseInput_new (no_config\<lparr>cfg_mode := Some ''continuous''\<rparr>)"
               and a = 48 and b = 84
               and win = "\<lparr>innerWidth = Fin 1000, innerHeight = Fin 800\<rparr>"
               and pe = "\<lparr>clientX = Some (Fin 0), clientY = Some (Fin 0), touches = None\<rparr>"
               and e = "(''note-on'', [(''note'', Num (Fin 48)), (''velocity'', Num (Fin 0.7)),
                                       (''x'', Undefined), (''y'', Undefined)])"]
    by (simp add: MouseInput_new_continuous continuous_handleDown_def eventX_def eventY_def
          coordinate_def xyToNote_def MusicMath_map_def MusicMath_clamp_def js_sub_def Let_def)
  show "range_invariant (''note-on'', [(''note'', Num (Fin 66)), (''velocity'', Num (Fin 0.5)),
                                       (''x'', Num (Fin 500)), (''y'', Num (Fin 400))])"
    using range_invariant_for_in_range_input
            [where mst = "MouseInput_new (no_config\<lparr>cfg_minNote := Some (Fin 48), cfg_maxNote := Some (Fin 84)\<rparr>)"
               and a = 48 and b = 84
               and win = "\<lparr>innerWidth = Fin 1000, innerHeight = Fin 800\<rparr>" and h = 800
               and pe = "\<lparr>clientX = Some (Fin 500), clientY = Some (Fin 400), touches = None\<rparr>"
               and y = 400 and tx = "Fin 0" and ts = "[]"
               and e = "(''note-on'', [(''note'', Num (Fin 66)), (''velocity'', Num (Fin 0.5)),
                                       (''x'', Num (Fin 500)), (''y'', Num (Fin 400))])"]
    by (simp add: MouseInput_new_window handleClick_def eventX_def eventY_def
          coordinate_def xyToNote_def yToVelocity_def MusicMath_map_def MusicMath_clamp_def
          js_sub_def Let_def)
  show "range_invariant (''continuous'', [(''x'', Num (Fin 0)), (''y'', Num (Fin 1)),
                                          (''pressure'', Num (Fin 0.7))])"
    using range_invariant_for_in_range_input
            [where mst = "(MouseInput_new (no_config\<lparr>cfg_mode := Some ''continuous''\<rparr>))\<lparr>isPressed := True\<rparr>"
               and win = "\<lparr>innerWidth = Fin 1000, innerHeight = Fin 800\<rparr>" and w = 1000 and h = 800
               and pe = "\<lparr>clientX = None, clientY = None, touches = Some [(Fin 0, Fin 800)]\<rparr>"
               and x = 0 and y = 800 and ts = "[]"
               and e = "(''continuous'', [(''x'', Num (Fin 0)), (''y'', Num (Fin 1)),
                                          (''pressure'', Num (Fin 0.7))])"]
    by (simp add: MouseInput_new_continuous continuous_handleMove_def eventX_def eventY_def
          coordinate_def Let_def)
  show "range_invariant (''note-off'', [])"
    using range_invariant_for_in_range_input
            [where mst = "MouseInput_new (no_config\<lparr>cfg_mode := Some ''continuous''\<rparr>)"
               and e = "(''note-off'', [])"]
    by (simp add: continuous_handleUp_def)
  show "range_invariant (''note-on'', [(''note'', Num (Fin 75)), (''velocity'', Num (Fin 0.7)),
                                       (''x'', Num (Fin 750)), (''y'', Num (Fin 480)),
                                       (''fingerIndex'', Num (Fin 8))])"
    using range_invariant_for_in_range_input
            [where hst = "(MediaPipeInput_new no_config)\<lparr>previousPositions := [8 \<mapsto> Fin 0.3]\<rparr>"
               and a = 48 and b = 84
               and win = "\<lparr>innerWidth = Fin 1000, innerHeight = Fin 800\<rparr>"
               and hand = "replicate 8 (Fin 0.5, Fin 0.5) @ [(Fin 0.25, Fin 0.6)] @ replicate 12 (Fin 0.5, Fin 0.5)"
               and e = "(''note-on'', [(''note'', Num (Fin 75)), (''velocity'', Num (Fin 0.7)),
                                       (''x'', Num (Fin 750)), (''y'', Num (Fin 480)),
                                       (''fingerIndex'', Num (Fin 8))])"]
    by (simp add: MediaPipeInput_new_default numeral_eq_Suc processHand_def checkLineCrossing_def
          Let_def triggerNote_def MusicMath_map_def js_sub_def js_geq_def)
qed

section \<open>Input manager: enabling and disabling\<close>

lemma KeyboardInput_new_default:
  "KeyboardInput_new None =
     \<lparr>layout = ''piano'', keysPressed = [],
      kb_listeners = [(Document, ''keydown'', KeyDown), (Document, ''keyup'', KeyUp),
                      (Window, ''blur'', KeyBlur)]\<rparr>"
  by (simp add: KeyboardInput_new_def)

lemma enable_keyboard_once:
  "fst (enableInput ''keyboard'' no_config (new_world win)) =
     (new_world win)
       \<lparr>registered := [(0, Document, ''keydown'', KeyDown), (0, Document, ''keyup'', KeyUp),
                       (0, Window, ''blur'', KeyBlur)],
        heap := [0 \<mapsto> KeyboardA (KeyboardInput_new None)],
        next_ref := 1,
        activeInputs := [''keyboard''],
        inputModules := [''keyboard'' \<mapsto> 0]\<rparr>"
  by (simp add: enableInput_def alloc_def new_world_def no_config_def KeyboardInput_new_default
        set_add_def)

lemma enable_keyboard_twice:
  "fst (enableInput ''keyboard'' no_config (fst (enableInput ''keyboard'' no_config (new_world win)))) =
     (new_world win)
       \<lparr>registered := [(0, Document, ''keydown'', KeyDown), (0, Document, ''keyup'', KeyUp),
                       (0, Window, ''blur'', KeyBlur),
                       (1, Document, ''keydown'', KeyDown), (1, Document, ''keyup'', KeyUp),
                       (1, Window, ''blur'', KeyBlur)],
        heap := [0 \<mapsto> KeyboardA (KeyboardInput_new None), 1 \<mapsto> KeyboardA (KeyboardInput_new None)],
        next_ref := 2,
        activeInputs := [''keyboard''],
        inputModules := [''keyboard'' \<mapsto> 1]\<rparr>"
  unfolding enable_keyboard_once
  by (simp add: enableInput_def alloc_def new_world_def no_config_def KeyboardInput_new_default
        set_add_def Let_def)

text \<open>
  C1. The claim: enabling a kind twice leaves exactly one live adapter of that kind and
  one set of registered listeners. \<open>enableInput\<close> neither looks for a live adapter nor
  tears one down: after two calls for the keyboard the document has two \<open>keydown\<close> and
  two \<open>keyup\<close> listeners and the window two \<open>blur\<close> listeners, of two adapters, and one
  keydown of \<open>q\<close> emits two note-on events.
\<close>

theorem enable_keyboard_twice_two_listener_sets:
  "registered (fst (enableInput ''keyboard'' no_config
                 (fst (enableInput ''keyboard'' no_config
                    (new_world \<lparr>innerWidth = Fin 1000, innerHeight = Fin 800\<rparr>))))) =
     [(0, Document, ''keydown'', KeyDown), (0, Document, ''keyup'', KeyUp),
      (0, Window, ''blur'', KeyBlur),
      (1, Document, ''keydown'', KeyDown), (1, Document, ''keyup'', KeyUp),
      (1, Window, ''blur'', KeyBlur)] \<and>
   dispatched (dispatchEvent Document ''keydown'' (KeyEv (plain_key ''q''))
      (fst (enableInput ''keyboard'' no_config
         (fst (enableInput ''keyboard'' no_config
            (new_world \<lparr>innerWidth = Fin 1000, innerHeight = Fin 800\<rparr>)))))) =
     [(''note-on'', [(''note'', Num (Fin 60)), (''velocity'', Num (Fin 0.7)), (''key'', Str ''q'')]),
      (''note-on'', [(''note'', Num (Fin 60)), (''velocity'', Num (Fin 0.7)), (''key'', Str ''q'')])]"
  unfolding enable_keyboard_twice
  by (simp add: dispatchEvent_def run_handler_def keyboard_handler_def new_world_def
        handleKeyDown_def KeyboardInput_new_default plain_key_def toLowerCase_q
        layout_entry_known [OF layouts_piano] table_entry_piano_q Let_def)

text \<open>
  C1, amended. \<open>enableInput\<close> for the keyboard or the pointer kind always succeeds and
  always constructs a new adapter: the new adapter's listeners are added after all the
  registrations there were, which stay; the manager's entry for the kind refers to the
  new adapter; every other adapter object is left as it was; and the kind is listed
  once among the active inputs.
\<close>

theorem enable_adds_listeners_keeps_old:
  "snd (enableInput ''keyboard'' config w) = None \<and>
   registered (fst (enableInput ''keyboard'' config w)) =
     registered w @ [(next_ref w, Document, ''keydown'', KeyDown),
                     (next_ref w, Document, ''keyup'', KeyUp),
                     (next_ref w, Window, ''blur'', KeyBlur)] \<and>
   inputModules (fst (enableInput ''keyboard'' config w)) ''keyboard'' = Some (next_ref w) \<and>
   activeInputs (fst (enableInput ''keyboard'' config w)) = set_add ''keyboard'' (activeInputs w) \<and>
   (r \<noteq> next_ref w \<longrightarrow> heap (fst (enableInput ''keyboard'' config w)) r = heap w r) \<and>
   snd (enableInput ''mouse'' config w) = None \<and>
   registered (fst (enableInput ''mouse'' config w)) =
     registered w @ map (Pair (next_ref w)) (ms_listeners (MouseInput_new config)) \<and>
   inputModules (fst (enableInput ''mouse'' config w)) ''mouse'' = Some (next_ref w) \<and>
   activeInputs (fst (enableInput ''mouse'' config w)) = set_add ''mouse'' (activeInputs w) \<and>
   (r \<noteq> next_ref w \<longrightarrow> heap (fst (enableInput ''mouse'' config w)) r = heap w r)"
  by (simp add: enableInput_def alloc_def KeyboardInput_new_def Let_def)

theorem enable_adds_listeners_keeps_old_witness:
  "registered (fst (enableInput ''mouse'' no_config
                 (fst (enableInput ''mouse'' no_config
                    (new_world \<lparr>innerWidth = Fin 1000, innerHeight = Fin 800\<rparr>))))) =
     [(0, body, ''click'', TriggerClick), (0, body, ''touchstart'', TriggerClick),
      (1, body, ''click'', TriggerClick), (1, body, ''touchstart'', TriggerClick)] \<and>
   heap (fst (enableInput ''mouse'' no_config
           (fst (enableInput ''mouse'' no_config
              (new_world \<lparr>innerWidth = Fin 1000, innerHeight = Fin 800\<rparr>))))) 0 =
     Some (MouseA (MouseInput_new no_config)) \<and>
   activeInputs (fst (enableInput ''mouse'' no_config
                   (fst (enableInput ''mouse'' no_config
                      (new_world \<lparr>innerWidth = Fin 1000, innerHeight = Fin 800\<rparr>))))) = [''mouse'']"
  using enable_adds_listeners_keeps_old
          [where config = no_config and r = 0
             and w = "fst (enableInput ''mouse'' no_config
                        (new_world \<lparr>innerWidth = Fin 1000, innerHeight = Fin 800\<rparr>))"]
        enable_adds_listeners_keeps_old
          [where config = no_config and r = 1
             and w = "new_world \<lparr>innerWidth = Fin 1000, innerHeight = Fin 800\<rparr>"]
  by (simp add: new_world_def set_add_def MouseInput_new_def no_config_def
        mouse_setupListeners_def setupTriggerMode_def enableInput_def alloc_def)

lemma dispatch_without_listeners: "registered w = [] \<Longrightarrow> dispatchEvent tg name ev w = w"
  by (simp add: dispatchEvent_def)

lemma filter_out_all: "filter (\<lambda>l. l \<notin> set ls) ls = []"
  by (simp add: filter_empty_conv)

text \<open>
  Disabling the keyboard or the pointer adapter after enabling it on a fresh page
  removes every listener: no DOM event reaches a handler afterwards.
\<close>

lemma disable_keyboard_removes_listeners:
  "registered (disableInput ''keyboard'' (fst (enableInput ''keyboard'' config (new_world win)))) = []"
  by (simp add: enableInput_def alloc_def new_world_def disableInput_def KeyboardInput_new_def
        Let_def)

lemma disable_mouse_removes_listeners:
  "registered (disableInput ''mouse'' (fst (enableInput ''mouse'' config (new_world win)))) = []"
  by (simp add: enableInput_def alloc_def new_world_def disableInput_def Let_def filter_out_all)

text \<open>
  C2. The claim: once \<open>disable\<close> has completed, no callback of the hardware or the
  browser makes the adapter emit an event, the MIDI adapter's state-change handler
  included. \<open>cleanup\<close> of the MIDI adapter clears the message handlers of its ports and
  leaves \<open>onstatechange\<close> installed: with one input port present, after enabling and
  disabling MIDI, a second port that is plugged in gets a message handler from the
  disabled adapter, and a note-on message on that port is emitted as a musical event.
\<close>

theorem midi_hot_plug_after_disable_emits:
  "snd (enableInput ''midi'' no_config
          ((new_world \<lparr>innerWidth = Fin 1000, innerHeight = Fin 800\<rparr>)
             \<lparr>midi_supported := True, midi_granted := True, midi_inputs := [1]\<rparr>)) = None \<and>
   inputModules (disableInput ''midi'' (fst (enableInput ''midi'' no_config
          ((new_world \<lparr>innerWidth = Fin 1000, innerHeight = Fin 800\<rparr>)
             \<lparr>midi_supported := True, midi_granted := True, midi_inputs := [1]\<rparr>)))) ''midi'' = None \<and>
   onstatechange (disableInput ''midi'' (fst (enableInput ''midi'' no_config
          ((new_world \<lparr>innerWidth = Fin 1000, innerHeight = Fin 800\<rparr>)
             \<lparr>midi_supported := True, midi_granted := True, midi_inputs := [1]\<rparr>)))) = Some 0 \<and>
   dispatched (midimessage 2 [0x90, 60, 100]
      (statechange \<lparr>port_id = 2, port_type = ''input'', port_state = ''connected''\<rparr>
         (disableInput ''midi'' (fst (enableInput ''midi'' no_config
            ((new_world \<lparr>innerWidth = Fin 1000, innerHeight = Fin 800\<rparr>)
               \<lparr>midi_supported := True, midi_granted := True, midi_inputs := [1]\<rparr>)))))) =
     [(''note-on'', [(''note'', Num (Fin 60)), (''velocity'', Num (Fin (100 / 127))),
                     (''channel'', Num (Fin 0))])]"
  by (simp add: enableInput_def MidiInput_create_def new_world_def set_add_def disableInput_def
        statechange_def handleStateChange_def midimessage_def handleMidiMessage_three
        word_num_def Let_def)

text \<open>
  The ports the adapter was connected to are released: a message on the port that was
  present when MIDI was enabled emits nothing after the adapter is disabled.
\<close>

lemma midi_connected_port_released:
  "dispatched (midimessage 1 [0x90, 60, 100]
      (disableInput ''midi'' (fst (enableInput ''midi'' no_config
         ((new_world \<lparr>innerWidth = Fin 1000, innerHeight = Fin 800\<rparr>)
            \<lparr>midi_supported := True, midi_granted := True, midi_inputs := [1]\<rparr>))))) = []"
  by (simp add: enableInput_def MidiInput_create_def new_world_def set_add_def disableInput_def
        midimessage_def Let_def)

end
